theory Spec2Isabelle
  imports Complex_Main
begin

section \<open>Data model\<close>

text \<open>
  The account service keeps one entity, the user row, and three dependent tables that only
  matter to the deletion cascade. The fields are those the route handlers read and write;
  the row identifiers are numbers chosen by the database.

  Strings are lists of 8-bit characters: an ASCII character is itself, and a character
  beyond ASCII is the bytes of its encoding, none of which is a letter, a digit or a symbol
  of the password alphabet. A nullable column is an \<open>option\<close>, with \<open>None\<close> for
  \<open>null\<close>. A \<open>Date\<close> is its number of milliseconds since the epoch.
\<close>

record user =
  user_id :: nat
  firstName :: string
  lastName :: string
  email :: string
  password :: string
  isVerified :: bool
  otp :: "string option"
  otpExpiry :: "int option"

record profile =
  profile_id :: nat
  profile_userId :: nat

record project =
  project_id :: nat
  project_userId :: nat

record projectAverage =
  average_id :: nat
  average_profileId :: nat

text \<open>A message handed to \<open>sendEmail(to, subject, text)\<close>.\<close>

record mail =
  mail_to :: string
  mail_subject :: string
  mail_text :: string

text \<open>
  The world a handler acts on: the four tables, and the messages the mail transport has
  accepted so far.
\<close>

record world =
  users :: "user list"
  profiles :: "profile list"
  projects :: "project list"
  projectAverages :: "projectAverage list"
  outbox :: "mail list"

definition empty_world :: world where
  "empty_world =
     \<lparr>users = [], profiles = [], projects = [], projectAverages = [], outbox = []\<rparr>"

subsection \<open>Responses\<close>

text \<open>
  \<open>jwt.sign({ userId: user.id }, JWT_SECRET, { expiresIn })\<close>: a token is its payload and
  its validity window.
\<close>

datatype jwt = Jwt (jwt_userId: nat) (jwt_expiresIn: string)

record identity =
  ident_id :: nat
  ident_email :: string
  ident_firstName :: string
  ident_lastName :: string

text \<open>
  What \<open>res.status(s).json(body)\<close> sends: the status and the fields of the body the
  handlers use (\<open>message\<close>, \<open>error\<close>, \<open>token\<close>, \<open>user\<close>), each absent when the body
  does not carry it.
\<close>

record response =
  status :: nat
  message :: "string option"
  err :: "string option"
  token :: "jwt option"
  res_user :: "identity option"

definition reply :: "nat \<Rightarrow> string \<Rightarrow> response" where
  "reply s m = \<lparr>status = s, message = Some m, err = None, token = None, res_user = None\<rparr>"

definition failure :: "string \<Rightarrow> string \<Rightarrow> response" where
  "failure m e = \<lparr>status = 500, message = Some m, err = Some e, token = None, res_user = None\<rparr>"

definition passwordMessage :: string where
  "passwordMessage = ''Password must be at least 6 characters long and include at least one uppercase letter, one lowercase letter, one special character, and one number.''"

text \<open>The typed failures of the specification, as the handlers send them.\<close>

definition ValidationError :: response where
  "ValidationError = reply 400 passwordMessage"

definition ConflictError :: response where
  "ConflictError = reply 400 ''Email already registered''"

definition NotFoundError :: response where
  "NotFoundError = reply 404 ''User not found''"

definition InvalidOtpError :: response where
  "InvalidOtpError = reply 400 ''Invalid or expired OTP''"

definition UnverifiedError :: response where
  "UnverifiedError = reply 400 ''Please verify your email first''"

definition InvalidCredentialError :: response where
  "InvalidCredentialError = reply 400 ''Invalid password''"

definition InvalidAssertionError :: response where
  "InvalidAssertionError = reply 400 ''Invalid Google token or missing email''"

subsection \<open>Request values\<close>

text \<open>
  A field of a JSON request body: absent, \<open>null\<close>, a boolean, a number, a string, or an
  object or array, and what \<open>typeof\<close> says of it. The password that \<open>login\<close> and
  \<open>deleteAccount\<close> pass to bcrypt is such a value; the other fields are strings.
\<close>

datatype jsvalue = JUndefined | JNull | JBoolean bool | JNumber rat | JString string | JObject

definition typeof :: "jsvalue \<Rightarrow> string" where
  "typeof v =
     (case v of
        JUndefined \<Rightarrow> ''undefined''
      | JNull \<Rightarrow> ''object''
      | JBoolean b \<Rightarrow> ''boolean''
      | JNumber n \<Rightarrow> ''number''
      | JString s \<Rightarrow> ''string''
      | JObject \<Rightarrow> ''object'')"

section \<open>Collaborators\<close>

text \<open>
  Everything a handler obtains from outside during one request: the draw of
  \<open>Math.random()\<close> (a double, given as the rational number it denotes), the clock,
  bcrypt, the identifier the database gives a created row, whether the mail transport
  throws, and which statement of the deletion transaction throws.

  \<open>bcrypt_hash s c\<close> is the hash \<open>bcrypt.hash(s, c)\<close> returns. \<open>bcrypt_compare s h\<close>
  is what comparing the string \<open>s\<close> with a stored hash \<open>h\<close> of 60 characters comes to:
  whether hashing \<open>s\<close> with the salt of \<open>h\<close> gives \<open>h\<close>, or the error the hashing throws.
\<close>

datatype txStep = DeleteAverages | DeleteProjects | DeleteProfile | DeleteUser

record env =
  random :: rat
  now :: int
  bcrypt_hash :: "string \<Rightarrow> nat \<Rightarrow> string"
  bcrypt_compare :: "string \<Rightarrow> string \<Rightarrow> string + bool"
  new_id :: nat
  smtp_error :: "string option"
  tx_error :: "txStep \<Rightarrow> string option"

section \<open>Password policy\<close>

text \<open>
  \<open>/^(?=.*[a-z])(?=.*[A-Z])(?=.*\d)(?=.*[@$!%*?&])[A-Za-z\d@$!%*?&]{6,}$/\<close>

  The character classes are ranges of code points. A lookahead \<open>(?=.*C)\<close> succeeds at the
  start of the input when some character of class \<open>C\<close> is preceded only by characters
  \<open>.\<close> matches, that is by no line terminator. The body needs every character of the
  input in the allowed alphabet, and at least six of them.
\<close>

definition charCode :: "char \<Rightarrow> nat" where
  "charCode c = of_char c"

definition isLower :: "char \<Rightarrow> bool" where
  "isLower c = (97 \<le> charCode c \<and> charCode c \<le> 122)"

definition isUpper :: "char \<Rightarrow> bool" where
  "isUpper c = (65 \<le> charCode c \<and> charCode c \<le> 90)"

definition isDigit :: "char \<Rightarrow> bool" where
  "isDigit c = (48 \<le> charCode c \<and> charCode c \<le> 57)"

definition isSymbol :: "char \<Rightarrow> bool" where
  "isSymbol c = (c \<in> set ''@$!%*?&'')"

definition isAllowed :: "char \<Rightarrow> bool" where
  "isAllowed c = (isUpper c \<or> isLower c \<or> isDigit c \<or> isSymbol c)"

definition isLineTerminator :: "char \<Rightarrow> bool" where
  "isLineTerminator c = (charCode c = 10 \<or> charCode c = 13)"

fun lookahead :: "(char \<Rightarrow> bool) \<Rightarrow> string \<Rightarrow> bool" where
  "lookahead C [] = False"
| "lookahead C (c # cs) = (C c \<or> (\<not> isLineTerminator c \<and> lookahead C cs))"

definition validatePassword :: "string \<Rightarrow> bool" where
  "validatePassword pw =
     (lookahead isLower pw \<and> lookahead isUpper pw \<and> lookahead isDigit pw \<and>
      lookahead isSymbol pw \<and> list_all isAllowed pw \<and> 6 \<le> length pw)"

section \<open>Double arithmetic\<close>

text \<open>
  JavaScript numbers are IEEE 754 doubles, and \<open>+\<close> and \<open>*\<close> return the exact result
  rounded to the nearest double, ties to the even significand. A double is taken as the
  rational number it denotes. \<open>binade x\<close> is the largest power of two that is at most a
  positive \<open>x\<close>; the doubles around \<open>x\<close> are spaced \<open>ulp x\<close> apart, which is
  \<open>2^-52\<close> times that power, and never less than the spacing \<open>2^-1074\<close> of the
  subnormal numbers. Results of magnitude \<open>2^1024\<close> and more (which become infinite) do
  not occur here.
\<close>

function binade :: "rat \<Rightarrow> rat" where
  "binade x =
     (if x \<le> 0 then 1
      else if 2 \<le> x then 2 * binade (x / 2)
      else if x < 1 then binade (2 * x) / 2
      else 1)"
  by pat_completeness auto

termination
proof (relation "measure (\<lambda>x. if 1 \<le> x then nat \<lfloor>x\<rfloor> else nat \<lceil>1 / x\<rceil> + 1)")
  show "wf (measure (\<lambda>x::rat. if 1 \<le> x then nat \<lfloor>x\<rfloor> else nat \<lceil>1 / x\<rceil> + 1))"
    by simp
next
  fix x :: rat
  assume "\<not> x \<le> 0" and big: "2 \<le> x"
  have "x / 2 \<le> x - 1" using big by simp
  then have "\<lfloor>x / 2\<rfloor> \<le> \<lfloor>x - 1\<rfloor>" by (rule floor_mono)
  then have "\<lfloor>x / 2\<rfloor> < \<lfloor>x\<rfloor>" by simp
  moreover have "0 < \<lfloor>x\<rfloor>" using big by simp
  ultimately show "(x / 2, x) \<in> measure (\<lambda>x. if 1 \<le> x then nat \<lfloor>x\<rfloor> else nat \<lceil>1 / x\<rceil> + 1)"
    using big by simp
next
  fix x :: rat
  assume pos: "\<not> x \<le> 0" and "\<not> 2 \<le> x" and small: "x < 1"
  from pos small have inv: "1 < 1 / x" by simp
  then have c2: "2 \<le> \<lceil>1 / x\<rceil>" by (simp add: le_ceiling_iff)
  show "(2 * x, x) \<in> measure (\<lambda>x. if 1 \<le> x then nat \<lfloor>x\<rfloor> else nat \<lceil>1 / x\<rceil> + 1)"
  proof (cases "1 \<le> 2 * x")
    case True
    from small have "2 * x < 2" by simp
    with True have "\<lfloor>2 * x\<rfloor> = 1" by (simp add: floor_eq_iff)
    with True small c2 show ?thesis by simp
  next
    case False
    define y where "y = 1 / (2 * x)"
    from False pos have y1: "1 < y" by (simp add: y_def)
    have twice: "1 / x = 2 * y" by (simp add: y_def)
    have "of_int \<lceil>y\<rceil> < y + 1"
      using ceiling_correct [of y] by simp
    also have "\<dots> < 2 * y" using y1 by simp
    also have "\<dots> \<le> of_int \<lceil>2 * y\<rceil>" by (rule le_of_int_ceiling)
    finally have "\<lceil>y\<rceil> < \<lceil>2 * y\<rceil>" by simp
    then have "\<lceil>y\<rceil> < \<lceil>1 / x\<rceil>"
      by (simp only: twice)
    then have key: "\<lceil>1 / (2 * x)\<rceil> < \<lceil>1 / x\<rceil>"
      unfolding y_def .
    have "0 < \<lceil>y\<rceil>" using y1 by simp
    then have "0 < \<lceil>1 / (2 * x)\<rceil>"
      unfolding y_def .
    with key have "nat \<lceil>1 / (2 * x)\<rceil> + 1 < nat \<lceil>1 / x\<rceil> + 1"
      by linarith
    with False small show ?thesis
      by (simp del: divide_divide_eq_left times_divide_eq_left)
  qed
qed

declare binade.simps [simp del]

definition minNormal :: rat where
  "minNormal = 1 / 2 ^ 1022"

definition ulp :: "rat \<Rightarrow> rat" where
  "ulp x = max (binade \<bar>x\<bar>) minNormal / 2 ^ 52"

text \<open>Rounding to the nearest integer, a tie to the even one.\<close>

definition roundEven :: "rat \<Rightarrow> int" where
  "roundEven y =
     (let n = \<lfloor>y\<rfloor>; d = y - of_int n
      in if d < 1 / 2 then n else if 1 / 2 < d then n + 1 else if even n then n else n + 1)"

definition fl64 :: "rat \<Rightarrow> rat" where
  "fl64 x = of_int (roundEven (x / ulp x)) * ulp x"


section \<open>One-time codes\<close>

text \<open>
  \<open>Number.prototype.toString\<close> on an integer: its decimal digits, after a minus sign when
  it is negative.
\<close>

definition digitChar :: "nat \<Rightarrow> char" where
  "digitChar d = ''0123456789'' ! d"

fun digits :: "nat \<Rightarrow> string" where
  "digits n = (if n < 10 then [digitChar n] else digits (n div 10) @ [digitChar (n mod 10)])"

declare digits.simps [simp del]

definition toString :: "int \<Rightarrow> string" where
  "toString i = (if i < 0 then CHR ''-'' # digits (nat (- i)) else digits (nat i))"

text \<open>
  \<open>Math.floor(100000 + Math.random() * 900000).toString()\<close>: the product is rounded,
  then the sum is rounded, then \<open>Math.floor\<close> is exact.
\<close>

definition otpNumber :: "rat \<Rightarrow> int" where
  "otpNumber r = \<lfloor>fl64 (100000 + fl64 (r * 900000))\<rfloor>"

definition generateOtp :: "rat \<Rightarrow> string" where
  "generateOtp r = toString (otpNumber r)"

text \<open>
  \<open>new Date(Date.now() + 10 * 60 * 1000)\<close>: the clock is a whole number of
  milliseconds far below \<open>2^53\<close>, so this sum is exact.
\<close>

definition generateOtpExpiry :: "int \<Rightarrow> int" where
  "generateOtpExpiry t = t + 10 * 60 * 1000"

section \<open>The identity store\<close>

text \<open>
  \<open>prisma.user.findUnique({ where: { email } })\<close>, \<open>prisma.user.create({ data })\<close> and
  \<open>prisma.user.update({ where: { email }, data })\<close>.
\<close>

definition findUnique :: "world \<Rightarrow> string \<Rightarrow> user option" where
  "findUnique w e = find (\<lambda>u. email u = e) (users w)"

definition user_create :: "world \<Rightarrow> user \<Rightarrow> world" where
  "user_create w u = w\<lparr>users := users w @ [u]\<rparr>"

definition user_update :: "world \<Rightarrow> string \<Rightarrow> (user \<Rightarrow> user) \<Rightarrow> world" where
  "user_update w e f = w\<lparr>users := map (\<lambda>u. if email u = e then f u else u) (users w)\<rparr>"

text \<open>
  \<open>sendEmail(to, subject, text)\<close> either throws the transport's error or hands the message
  over.
\<close>

definition sendEmail :: "env \<Rightarrow> world \<Rightarrow> string \<Rightarrow> string \<Rightarrow> string \<Rightarrow> string + world" where
  "sendEmail env w to subject body =
     (case smtp_error env of
        Some e \<Rightarrow> Inl e
      | None \<Rightarrow>
          Inr (w\<lparr>outbox := outbox w @ [\<lparr>mail_to = to, mail_subject = subject, mail_text = body\<rparr>]\<rparr>))"

text \<open>
  The comparison \<open>new Date() > user.otpExpiry\<close> converts both sides to numbers; \<open>null\<close>
  converts to \<open>0\<close>.
\<close>

definition dateValue :: "int option \<Rightarrow> int" where
  "dateValue d = (case d of None \<Rightarrow> 0 | Some t \<Rightarrow> t)"

section \<open>Password comparison\<close>

text \<open>
  \<open>bcrypt.compare(s, hash)\<close> of bcryptjs: it rejects with \<open>Illegal arguments\<close> unless
  both arguments are strings (the stored hash always is one), answers \<open>false\<close> for a hash
  that has not 60 characters, and otherwise hashes \<open>s\<close> with the salt of the hash and
  compares the result with the hash.
\<close>

definition bcryptCompare :: "env \<Rightarrow> jsvalue \<Rightarrow> string \<Rightarrow> string + bool" where
  "bcryptCompare env s hash =
     (case s of
        JString p \<Rightarrow> if length hash \<noteq> 60 then Inr False else bcrypt_compare env p hash
      | _ \<Rightarrow> Inl (''Illegal arguments: '' @ typeof s @ '', string''))"

section \<open>Route handlers\<close>

text \<open>
  Each handler takes the collaborators of the request, the world and the fields of the
  request body, and returns the world it leaves and the response it sends. An error thrown
  inside the handler's \<open>try\<close> is answered by its \<open>catch\<close> with status 500.
\<close>

subsection \<open>Signup\<close>

text \<open>
  Modelled from the spec: the column default of \<open>isVerified\<close>, which the schema (not
  among the sources) declares and \<open>signup\<close> relies on: an account ``starts false except for
  federated signups''.
\<close>

definition isVerified_default :: bool where
  "isVerified_default = False"

definition signup :: "env \<Rightarrow> world \<Rightarrow> string \<Rightarrow> string \<Rightarrow> string \<Rightarrow> string \<Rightarrow> world \<times> response" where
  "signup env w fName lName mail pw =
     (if \<not> validatePassword pw then (w, ValidationError)
      else
        (case findUnique w mail of
           Some existingUser \<Rightarrow> (w, ConflictError)
         | None \<Rightarrow>
             (let hashedPassword = bcrypt_hash env pw 10;
                  code = generateOtp (random env);
                  expiry = generateOtpExpiry (now env);
                  w' = user_create w
                         \<lparr>user_id = new_id env, firstName = fName, lastName = lName,
                          email = mail, password = hashedPassword,
                          isVerified = isVerified_default,
                          otp = Some code, otpExpiry = Some expiry\<rparr>
              in (case sendEmail env w' mail ''Verify your email'' (''Your OTP is: '' @ code) of
                    Inl e \<Rightarrow> (w', failure ''Error creating user'' e)
                  | Inr w'' \<Rightarrow> (w'', (reply 201 ''User created. Please verify your email.''))))))"

subsection \<open>Verify OTP\<close>

definition verifyOtp :: "env \<Rightarrow> world \<Rightarrow> string \<Rightarrow> string \<Rightarrow> world \<times> response" where
  "verifyOtp env w mail code =
     (case findUnique w mail of
        None \<Rightarrow> (w, NotFoundError)
      | Some u \<Rightarrow>
          if otp u \<noteq> Some code \<or> now env > dateValue (otpExpiry u) then (w, InvalidOtpError)
          else
            (user_update w mail (\<lambda>x. x\<lparr>isVerified := True, otp := None, otpExpiry := None\<rparr>),
             \<lparr>status = 200, message = Some ''Email verified successfully'', err = None,
              token = Some (Jwt (user_id u) ''240h''), res_user = None\<rparr>))"

subsection \<open>Login\<close>

definition login :: "env \<Rightarrow> world \<Rightarrow> string \<Rightarrow> jsvalue \<Rightarrow> world \<times> response" where
  "login env w mail pw =
     (case findUnique w mail of
        None \<Rightarrow> (w, NotFoundError)
      | Some u \<Rightarrow>
          if \<not> isVerified u then (w, UnverifiedError)
          else
            (case bcryptCompare env pw (password u) of
               Inl e \<Rightarrow> (w, failure ''Error logging in'' e)
             | Inr validPassword \<Rightarrow>
                 if \<not> validPassword then (w, InvalidCredentialError)
                 else
                   (w, \<lparr>status = 200, message = None, err = None,
                        token = Some (Jwt (user_id u) ''240h''), res_user = None\<rparr>)))"

subsection \<open>Forgot password\<close>

definition forgotPassword :: "env \<Rightarrow> world \<Rightarrow> string \<Rightarrow> world \<times> response" where
  "forgotPassword env w mail =
     (case findUnique w mail of
        None \<Rightarrow> (w, NotFoundError)
      | Some u \<Rightarrow>
          (let code = generateOtp (random env);
               expiry = generateOtpExpiry (now env);
               w' = user_update w mail (\<lambda>x. x\<lparr>otp := Some code, otpExpiry := Some expiry\<rparr>)
           in (case sendEmail env w' mail ''Reset Password''
                       (''Your password reset OTP is: '' @ code) of
                 Inl e \<Rightarrow> (w', failure ''Error processing request'' e)
               | Inr w'' \<Rightarrow> (w'', reply 200 ''Password reset OTP sent to email''))))"

subsection \<open>Reset password\<close>

definition resetPassword :: "env \<Rightarrow> world \<Rightarrow> string \<Rightarrow> string \<Rightarrow> string \<Rightarrow> world \<times> response" where
  "resetPassword env w mail code newPassword =
     (if \<not> validatePassword newPassword then (w, ValidationError)
      else
        (case findUnique w mail of
           None \<Rightarrow> (w, NotFoundError)
         | Some u \<Rightarrow>
             if otp u \<noteq> Some code \<or> now env > dateValue (otpExpiry u) then (w, InvalidOtpError)
             else
               (let hashedPassword = bcrypt_hash env newPassword 10
                in (user_update w mail
                      (\<lambda>x. x\<lparr>password := hashedPassword, otp := None, otpExpiry := None\<rparr>),
                    reply 200 ''Password reset successfully''))))"

subsection \<open>Delete account\<close>

text \<open>
  \<open>findUnique\<close> with \<open>include: { profile: { include: { projectAverages: true } },
  projects: true }\<close>: the user row and, as \<open>user.profile\<close>, the profile row of that user
  or \<open>null\<close>.
\<close>

definition findProfile :: "world \<Rightarrow> nat \<Rightarrow> profile option" where
  "findProfile w uid = find (\<lambda>p. profile_userId p = uid) (profiles w)"

text \<open>
  The statements of the transaction. Each one throws when the database makes it fail
  (\<open>tx_error\<close>), and the two deletions of a single row also throw when the row is not
  there; otherwise it removes the rows its \<open>where\<close> selects.
\<close>

definition projectAverage_deleteMany :: "env \<Rightarrow> nat \<Rightarrow> world \<Rightarrow> string + world" where
  "projectAverage_deleteMany env pid w =
     (case tx_error env DeleteAverages of
        Some e \<Rightarrow> Inl e
      | None \<Rightarrow>
          Inr (w\<lparr>projectAverages := filter (\<lambda>a. average_profileId a \<noteq> pid) (projectAverages w)\<rparr>))"

definition project_deleteMany :: "env \<Rightarrow> nat \<Rightarrow> world \<Rightarrow> string + world" where
  "project_deleteMany env uid w =
     (case tx_error env DeleteProjects of
        Some e \<Rightarrow> Inl e
      | None \<Rightarrow> Inr (w\<lparr>projects := filter (\<lambda>p. project_userId p \<noteq> uid) (projects w)\<rparr>))"

definition profile_delete :: "env \<Rightarrow> nat \<Rightarrow> world \<Rightarrow> string + world" where
  "profile_delete env uid w =
     (case tx_error env DeleteProfile of
        Some e \<Rightarrow> Inl e
      | None \<Rightarrow>
          if list_ex (\<lambda>p. profile_userId p = uid) (profiles w)
          then Inr (w\<lparr>profiles := filter (\<lambda>p. profile_userId p \<noteq> uid) (profiles w)\<rparr>)
          else Inl ''Record to delete does not exist.'')"

definition user_delete :: "env \<Rightarrow> nat \<Rightarrow> world \<Rightarrow> string + world" where
  "user_delete env uid w =
     (case tx_error env DeleteUser of
        Some e \<Rightarrow> Inl e
      | None \<Rightarrow>
          if list_ex (\<lambda>u. user_id u = uid) (users w)
          then Inr (w\<lparr>users := filter (\<lambda>u. user_id u \<noteq> uid) (users w)\<rparr>)
          else Inl ''Record to delete does not exist.'')"

text \<open>Sequencing of statements: the first one that throws ends the body.\<close>

definition andThen :: "string + world \<Rightarrow> (world \<Rightarrow> string + world) \<Rightarrow> string + world" where
  "andThen r f = (case r of Inl e \<Rightarrow> Inl e | Inr w \<Rightarrow> f w)"

text \<open>
  \<open>prisma.$transaction(async (prisma) => { ... })\<close>, Prisma's interactive transaction: the
  body runs on the transaction's client; when it throws, every write it made is rolled back
  and the error is thrown on, and when it returns the writes are committed.
\<close>

definition transaction :: "(world \<Rightarrow> string + world) \<Rightarrow> world \<Rightarrow> world \<times> string option" where
  "transaction body w = (case body w of Inl e \<Rightarrow> (w, Some e) | Inr w' \<Rightarrow> (w', None))"

definition deleteCascade :: "env \<Rightarrow> user \<Rightarrow> profile option \<Rightarrow> world \<Rightarrow> string + world" where
  "deleteCascade env u prof w =
     andThen
       (andThen
          (andThen
             (case prof of
                Some p \<Rightarrow> projectAverage_deleteMany env (profile_id p) w
              | None \<Rightarrow> Inr w)
             (project_deleteMany env (user_id u)))
          (\<lambda>w'. case prof of Some p \<Rightarrow> profile_delete env (user_id u) w' | None \<Rightarrow> Inr w'))
       (user_delete env (user_id u))"

definition deleteAccount :: "env \<Rightarrow> world \<Rightarrow> string \<Rightarrow> jsvalue \<Rightarrow> world \<times> response" where
  "deleteAccount env w mail pw =
     (case findUnique w mail of
        None \<Rightarrow> (w, NotFoundError)
      | Some u \<Rightarrow>
          (case bcryptCompare env pw (password u) of
             Inl e \<Rightarrow> (w, failure ''Error deleting account'' e)
           | Inr validPassword \<Rightarrow>
               if \<not> validPassword then (w, InvalidCredentialError)
               else
                 (case transaction (deleteCascade env u (findProfile w (user_id u))) w of
                    (w', Some e) \<Rightarrow> (w', failure ''Error deleting account'' e)
                  | (w', None) \<Rightarrow> (w', reply 200 ''Account deleted successfully''))))"

subsection \<open>Logout\<close>

text \<open>\<open>!token\<close> holds of an absent token and of the empty string.\<close>

definition truthy :: "string option \<Rightarrow> bool" where
  "truthy v = (case v of None \<Rightarrow> False | Some s \<Rightarrow> s \<noteq> [])"

definition logout :: "world \<Rightarrow> string option \<Rightarrow> world \<times> response" where
  "logout w tok =
     (if \<not> truthy tok then (w, reply 400 ''Token is required for logout'')
      else (w, reply 200 ''Logged out successfully''))"

subsection \<open>Google sign-up\<close>

text \<open>
  The fields of the verified payload the handler reads, each absent or a string, and what
  \<open>client.verifyIdToken\<close> with \<open>ticket.getPayload()\<close> yields: an error thrown, no payload,
  or a payload.
\<close>

record payload =
  pl_email :: "string option"
  pl_name :: "string option"
  pl_given_name :: "string option"
  pl_family_name :: "string option"

datatype verification = VerifyThrows string | Ticket "payload option"

text \<open>
  \<open>s.split(sep)\<close> for a separator of one character, and \<open>parts.join(sep)\<close>.
\<close>

fun split :: "char \<Rightarrow> string \<Rightarrow> string list" where
  "split sep [] = [[]]"
| "split sep (c # cs) =
     (if c = sep then [] # split sep cs
      else (case split sep cs of p # ps \<Rightarrow> (c # p) # ps | [] \<Rightarrow> [[c]]))"

fun join :: "char \<Rightarrow> string list \<Rightarrow> string" where
  "join sep [] = []"
| "join sep [p] = p"
| "join sep (p # q # ps) = p @ sep # join sep (q # ps)"

text \<open>\<open>parts[0] || ''\<close>: the first part, or the empty string when there is none.\<close>

definition first :: "string list \<Rightarrow> string" where
  "first parts = (case parts of [] \<Rightarrow> [] | p # ps \<Rightarrow> p)"

text \<open>
  The name fields of a new account. \<open>nameParts[0] || ''\<close> and
  \<open>nameParts.slice(1).join(' ') || ''\<close> are the first part and the joined rest;
  \<open>email.split('@')[0]\<close> is the first part of the address.
\<close>

definition deriveNames :: "string \<Rightarrow> payload \<Rightarrow> string \<times> string" where
  "deriveNames mail pl =
     (if truthy (pl_given_name pl) \<and> truthy (pl_family_name pl)
      then (the (pl_given_name pl), the (pl_family_name pl))
      else if truthy (pl_name pl)
      then (let nameParts = split CHR '' '' (the (pl_name pl))
            in (first nameParts, join CHR '' '' (tl nameParts)))
      else (first (split CHR ''@'' mail), []))"

definition identityOf :: "user \<Rightarrow> identity" where
  "identityOf u =
     \<lparr>ident_id = user_id u, ident_email = email u,
      ident_firstName = firstName u, ident_lastName = lastName u\<rparr>"

definition googleSignup :: "env \<Rightarrow> world \<Rightarrow> verification \<Rightarrow> world \<times> response" where
  "googleSignup env w v =
     (case v of
        VerifyThrows e \<Rightarrow> (w, failure ''Error during Google signup'' e)
      | Ticket None \<Rightarrow> (w, InvalidAssertionError)
      | Ticket (Some pl) \<Rightarrow>
          if \<not> truthy (pl_email pl) then (w, InvalidAssertionError)
          else
            (let mail = the (pl_email pl) in
             case findUnique w mail of
               Some u \<Rightarrow>
                 (w, \<lparr>status = 200, message = Some ''User already exists'', err = None,
                      token = Some (Jwt (user_id u) ''24h''),
                      res_user = Some (identityOf u)\<rparr>)
             | None \<Rightarrow>
                 (let (fName, lName) = deriveNames mail pl;
                      u = \<lparr>user_id = new_id env, firstName = fName, lastName = lName,
                           email = mail, password = [], isVerified = True,
                           otp = None, otpExpiry = None\<rparr>
                  in (user_create w u,
                      \<lparr>status = 201, message = Some ''User created successfully'', err = None,
                       token = Some (Jwt (user_id u) ''24h''),
                       res_user = Some (identityOf u)\<rparr>))))"

section \<open>Requests and runs\<close>

datatype request =
    Signup string string string string
  | VerifyOtp string string
  | Login string jsvalue
  | ForgotPassword string
  | ResetPassword string string string
  | DeleteAccount string jsvalue
  | Logout "string option"
  | GoogleSignup verification

fun handle :: "env \<Rightarrow> world \<Rightarrow> request \<Rightarrow> world \<times> response" where
  "handle env w (Signup f l e p) = signup env w f l e p"
| "handle env w (VerifyOtp e c) = verifyOtp env w e c"
| "handle env w (Login e p) = login env w e p"
| "handle env w (ForgotPassword e) = forgotPassword env w e"
| "handle env w (ResetPassword e c p) = resetPassword env w e c p"
| "handle env w (DeleteAccount e p) = deleteAccount env w e p"
| "handle env w (Logout t) = logout w t"
| "handle env w (GoogleSignup v) = googleSignup env w v"

text \<open>The world after a sequence of requests, each served with its own collaborators.\<close>

fun run :: "world \<Rightarrow> (env \<times> request) list \<Rightarrow> world" where
  "run w [] = w"
| "run w ((env, rq) # rest) = run (fst (handle env w rq)) rest"

section \<open>Predicates the properties are stated with\<close>


text \<open>
  The pending code and its expiry are both \<open>null\<close> or both set, for one row and for every
  row of the user table.
\<close>

definition otpPaired :: "user \<Rightarrow> bool" where
  "otpPaired u = ((otp u = None) = (otpExpiry u = None))"

definition paired :: "world \<Rightarrow> bool" where
  "paired w = list_all otpPaired (users w)"

text \<open>The number of accounts an address has.\<close>

definition accountsOf :: "world \<Rightarrow> string \<Rightarrow> nat" where
  "accountsOf w e = length (filter (\<lambda>u. email u = e) (users w))"

text \<open>
  The rows that depend on the account \<open>uid\<close>: its projects, its profile rows, and the
  project averages of a profile that the world \<open>w0\<close> gives to the account.
\<close>

definition profileIdsOf :: "world \<Rightarrow> nat \<Rightarrow> nat list" where
  "profileIdsOf w0 uid = map profile_id (filter (\<lambda>p. profile_userId p = uid) (profiles w0))"

definition rowsOf :: "world \<Rightarrow> nat \<Rightarrow> world \<Rightarrow> nat" where
  "rowsOf w0 uid w =
     length (filter (\<lambda>u. user_id u = uid) (users w)) +
     length (filter (\<lambda>p. profile_userId p = uid) (profiles w)) +
     length (filter (\<lambda>p. project_userId p = uid) (projects w)) +
     length (filter (\<lambda>a. average_profileId a \<in> set (profileIdsOf w0 uid)) (projectAverages w))"

text \<open>
  Some statement that the cascade executes throws: the deletion of the projects or of the
  user row, or, when the account has a profile, the deletion of its averages or of the
  profile row.
\<close>

definition cascadeFails :: "env \<Rightarrow> profile option \<Rightarrow> bool" where
  "cascadeFails env prof =
     (tx_error env DeleteProjects \<noteq> None \<or> tx_error env DeleteUser \<noteq> None \<or>
      (prof \<noteq> None \<and>
       (tx_error env DeleteAverages \<noteq> None \<or> tx_error env DeleteProfile \<noteq> None)))"

section \<open>The password policy in the specification's words\<close>

text \<open>
  The rule as the specification states it: at least one lowercase letter, one uppercase
  letter, one digit, one symbol of the allowed set, and length at least 6.
\<close>

definition spec_passwordPolicy :: "string \<Rightarrow> bool" where
  "spec_passwordPolicy pw =
     (list_ex isLower pw \<and> list_ex isUpper pw \<and> list_ex isDigit pw \<and>
      list_ex isSymbol pw \<and> 6 \<le> length pw)"

section \<open>Concrete collaborators and worlds\<close>

text \<open>
  A request environment used to run the handlers on concrete inputs: the draw \<open>1/2\<close>, a
  clock at one second, a stand-in for bcrypt whose hash is the password between a prefix
  and padding to 60 characters, a transport that delivers and a database that does not
  fail.
\<close>

definition example_hash :: "string \<Rightarrow> string" where
  "example_hash p = ''$2a$10$'' @ p @ replicate (53 - length p) CHR ''.''"

definition example_env :: env where
  "example_env =
     \<lparr>random = 1 / 2, now = 1000, bcrypt_hash = (\<lambda>p c. example_hash p),
      bcrypt_compare = (\<lambda>p h. Inr (h = example_hash p)), new_id = 7, smtp_error = None,
      tx_error = (\<lambda>s. None)\<rparr>"

text \<open>
  The account that \<open>signup\<close> of \<open>A B\<close>, \<open>a@x.com\<close>, \<open>Abc123!\<close> creates under
  \<open>example_env\<close>, the world holding it, and a verified payload with the account it leads
  to.
\<close>

definition example_user :: user where
  "example_user =
     \<lparr>user_id = 7, firstName = ''A'', lastName = ''B'', email = ''a@x.com'',
      password = example_hash ''Abc123!'', isVerified = False,
      otp = Some ''550000'', otpExpiry = Some 601000\<rparr>"

definition example_world :: world where
  "example_world = empty_world\<lparr>users := [example_user]\<rparr>"

definition google_user :: user where
  "google_user =
     \<lparr>user_id = 7, firstName = ''Ada'', lastName = ''Lovelace'', email = ''ada@x.com'',
      password = [], isVerified = True, otp = None, otpExpiry = None\<rparr>"

definition google_world :: world where
  "google_world = empty_world\<lparr>users := [google_user]\<rparr>"

definition google_payload :: payload where
  "google_payload =
     \<lparr>pl_email = Some ''ada@x.com'', pl_name = Some ''Ada Lovelace'',
      pl_given_name = None, pl_family_name = None\<rparr>"

text \<open>The account \<open>googleSignup\<close> creates for an address that has none.\<close>

definition googleUser :: "env \<Rightarrow> string \<Rightarrow> payload \<Rightarrow> user" where
  "googleUser env mail pl =
     \<lparr>user_id = new_id env, firstName = fst (deriveNames mail pl),
      lastName = snd (deriveNames mail pl), email = mail, password = [], isVerified = True,
      otp = None, otpExpiry = None\<rparr>"

text \<open>
  A world with the example account, a second account, and rows that depend on each: a
  profile with two averages and two projects for the first, a profile with one average and
  one project for the second.
\<close>

definition other_user :: user where
  "other_user =
     \<lparr>user_id = 8, firstName = ''C'', lastName = ''D'', email = ''c@x.com'',
      password = example_hash ''Xyz789?'', isVerified = True, otp = None, otpExpiry = None\<rparr>"

definition full_world :: world where
  "full_world =
     \<lparr>users = [example_user, other_user],
      profiles = [\<lparr>profile_id = 1, profile_userId = 7\<rparr>, \<lparr>profile_id = 2, profile_userId = 8\<rparr>],
      projects = [\<lparr>project_id = 1, project_userId = 7\<rparr>, \<lparr>project_id = 2, project_userId = 8\<rparr>,
                  \<lparr>project_id = 3, project_userId = 7\<rparr>],
      projectAverages = [\<lparr>average_id = 1, average_profileId = 1\<rparr>,
                         \<lparr>average_id = 2, average_profileId = 2\<rparr>,
                         \<lparr>average_id = 3, average_profileId = 1\<rparr>],
      outbox = []\<rparr>"

definition full_world_after :: world where
  "full_world_after =
     \<lparr>users = [other_user],
      profiles = [\<lparr>profile_id = 2, profile_userId = 8\<rparr>],
      projects = [\<lparr>project_id = 2, project_userId = 8\<rparr>],
      projectAverages = [\<lparr>average_id = 2, average_profileId = 2\<rparr>],
      outbox = []\<rparr>"

section \<open>Name derivation in the specification's words\<close>

text \<open>
  The derivation as the specification states it: the given and family name when supplied;
  otherwise the display name split on whitespace, its first token and its remaining
  tokens; otherwise the local part of the address and an empty last name.
\<close>

definition isWhitespace :: "char \<Rightarrow> bool" where
  "isWhitespace c = (charCode c = 32 \<or> (9 \<le> charCode c \<and> charCode c \<le> 13))"

fun spec_words :: "string \<Rightarrow> string list" where
  "spec_words [] = [[]]"
| "spec_words (c # cs) =
     (if isWhitespace c then [] # spec_words cs
      else (case spec_words cs of p # ps \<Rightarrow> (c # p) # ps | [] \<Rightarrow> [[c]]))"

definition spec_tokens :: "string \<Rightarrow> string list" where
  "spec_tokens s = filter (\<lambda>t. t \<noteq> []) (spec_words s)"

definition spec_deriveNames :: "string \<Rightarrow> payload \<Rightarrow> string \<times> string" where
  "spec_deriveNames mail pl =
     (if truthy (pl_given_name pl) \<and> truthy (pl_family_name pl)
      then (the (pl_given_name pl), the (pl_family_name pl))
      else if truthy (pl_name pl)
      then (case spec_tokens (the (pl_name pl)) of
              [] \<Rightarrow> ([], [])
            | t # ts \<Rightarrow> (t, join CHR '' '' ts))
      else (takeWhile (\<lambda>c. c \<noteq> CHR ''@'') mail, []))"

text \<open>Two display names: one with a tab between the words, one with two spaces.\<close>

definition tab_payload :: payload where
  "tab_payload =
     \<lparr>pl_email = Some ''ada@x.com'', pl_name = Some (''Ada'' @ CHR 0x09 # ''Lovelace''),
      pl_given_name = None, pl_family_name = None\<rparr>"

definition spaces_payload :: payload where
  "spaces_payload =
     \<lparr>pl_email = Some ''ada@x.com'', pl_name = Some ''Ada  Lovelace'',
      pl_given_name = None, pl_family_name = None\<rparr>"

section \<open>Password validation\<close>

lemma lookahead_list_ex: "lookahead C s \<Longrightarrow> list_ex C s"
  by (induction s) auto

lemma validatePassword_policy: "validatePassword pw \<Longrightarrow> spec_passwordPolicy pw"
  by (simp add: validatePassword_def spec_passwordPolicy_def lookahead_list_ex)

lemma validatePassword_allowed: "validatePassword pw \<Longrightarrow> list_all isAllowed pw"
  by (simp add: validatePassword_def)

lemma signup_rejected:
  "\<not> validatePassword pw \<Longrightarrow> signup env w f l e pw = (w, ValidationError)"
  by (simp add: signup_def)

lemma resetPassword_rejected:
  "\<not> validatePassword pw \<Longrightarrow> resetPassword env w e c pw = (w, ValidationError)"
  by (simp add: resetPassword_def)

lemmas char_class_defs =
  isAllowed_def isLower_def isUpper_def isDigit_def isSymbol_def isLineTerminator_def
  charCode_def

text \<open>
  C6: a password that fails the stated policy (one lowercase letter, one uppercase letter,
  one digit, one allowed symbol, length at least 6) makes both \<open>signup\<close> and
  \<open>resetPassword\<close> answer with status 400 and one message, which names every requirement
  of the rule (the length, the uppercase letter, the lowercase letter, the special
  character and the number); the body carries nothing else, and both handlers leave the
  world (the tables and the outbox) as it was.
\<close>

theorem policy_failure_rejected:
  assumes "\<not> spec_passwordPolicy pw"
  shows "signup env w f l e pw =
           (w, \<lparr>status = 400,
                message = Some ''Password must be at least 6 characters long and include at least one uppercase letter, one lowercase letter, one special character, and one number.'',
                err = None, token = None, res_user = None\<rparr>) \<and>
         resetPassword env w e c pw =
           (w, \<lparr>status = 400,
                message = Some ''Password must be at least 6 characters long and include at least one uppercase letter, one lowercase letter, one special character, and one number.'',
                err = None, token = None, res_user = None\<rparr>)"
proof -
  from assms have "\<not> validatePassword pw"
    using validatePassword_policy by blast
  then show ?thesis
    by (simp add: signup_rejected resetPassword_rejected ValidationError_def reply_def
        passwordMessage_def)
qed

theorem policy_failure_rejected_witness:
  "\<not> spec_passwordPolicy ''abc12'' \<and>
   signup example_env empty_world ''A'' ''B'' ''a@x.com'' ''abc12'' =
     (empty_world,
      \<lparr>status = 400,
       message = Some ''Password must be at least 6 characters long and include at least one uppercase letter, one lowercase letter, one special character, and one number.'',
       err = None, token = None, res_user = None\<rparr>) \<and>
   resetPassword example_env empty_world ''a@x.com'' ''550000'' ''abc12'' =
     (empty_world,
      \<lparr>status = 400,
       message = Some ''Password must be at least 6 characters long and include at least one uppercase letter, one lowercase letter, one special character, and one number.'',
       err = None, token = None, res_user = None\<rparr>)"
proof -
  have h: "\<not> spec_passwordPolicy ''abc12''"
    by (simp add: spec_passwordPolicy_def)
  from policy_failure_rejected [OF h] h show ?thesis
    by blast
qed

text \<open>
  C10: the policy also restricts the alphabet. A password with a character outside the
  letters \<open>A-Z\<close>, \<open>a-z\<close>, the digits and the symbols \<open>@ $ ! % * ? &\<close> fails
  \<open>validatePassword\<close>, whatever else it contains, so \<open>signup\<close> and \<open>resetPassword\<close>
  answer with the validation failure.
\<close>

theorem alphabet_restricted:
  assumes "\<exists>c \<in> set pw. \<not> isAllowed c"
  shows "\<not> validatePassword pw \<and>
         signup env w f l e pw = (w, ValidationError) \<and>
         resetPassword env w e c pw = (w, ValidationError)"
proof -
  from assms have "\<not> list_all isAllowed pw"
    by (simp add: list_all_iff)
  then have "\<not> validatePassword pw"
    using validatePassword_allowed by blast
  then show ?thesis
    by (simp add: signup_rejected resetPassword_rejected)
qed

theorem alphabet_restricted_witness:
  "spec_passwordPolicy ''Abc123!#'' \<and>
   \<not> validatePassword ''Abc123!#'' \<and>
   signup example_env empty_world ''A'' ''B'' ''a@x.com'' ''Abc123!#'' =
     (empty_world, ValidationError) \<and>
   resetPassword example_env empty_world ''a@x.com'' ''550000'' ''Abc123!#'' =
     (empty_world, ValidationError)"
proof -
  have p: "spec_passwordPolicy ''Abc123!#''"
    by (simp add: spec_passwordPolicy_def char_class_defs)
  have "\<not> isAllowed CHR ''#''"
    by (simp add: char_class_defs)
  then have h: "\<exists>c \<in> set ''Abc123!#''. \<not> isAllowed c"
    by simp
  from alphabet_restricted [OF h] p show ?thesis
    by blast
qed

section \<open>Login\<close>

lemma example_hash_length: "length p \<le> 53 \<Longrightarrow> length (example_hash p) = 60"
  by (simp add: example_hash_def)

lemma example_compare:
  "bcryptCompare example_env (JString ''Abc123!'') (password example_user) = Inr True"
  by (simp add: bcryptCompare_def example_user_def example_hash_length example_env_def)

text \<open>
  C2: for an account that is not verified, \<open>login\<close> answers with the unverified failure
  (status 400, ``Please verify your email first'') and no token, whatever is submitted as
  the password. The verification check comes before the bcrypt comparison: the answer is
  the same for every comparison function.
\<close>

theorem unverified_login_rejected:
  assumes "findUnique w mail = Some u" and "\<not> isVerified u"
  shows "login (env\<lparr>bcrypt_compare := cmp\<rparr>) w mail pw = (w, UnverifiedError) \<and>
         login env w mail pw = (w, UnverifiedError) \<and>
         token UnverifiedError = None \<and> status UnverifiedError = 400 \<and>
         message UnverifiedError = Some ''Please verify your email first''"
  using assms by (simp add: login_def UnverifiedError_def reply_def)

lemma example_world_find: "findUnique example_world ''a@x.com'' = Some example_user"
  by (simp add: findUnique_def example_world_def example_user_def empty_world_def)

theorem unverified_login_rejected_witness:
  "findUnique example_world ''a@x.com'' = Some example_user \<and>
   \<not> isVerified example_user \<and>
   bcryptCompare example_env (JString ''Abc123!'') (password example_user) = Inr True \<and>
   login example_env example_world ''a@x.com'' (JString ''Abc123!'') =
     (example_world, UnverifiedError)"
proof -
  have v: "\<not> isVerified example_user"
    by (simp add: example_user_def)
  from unverified_login_rejected [OF example_world_find v] example_world_find v
    example_compare
  show ?thesis by blast
qed

lemma find_append_None: "find P xs = None \<Longrightarrow> find P (xs @ ys) = find P ys"
  by (induction xs) auto

lemma find_append_Some: "find P xs = Some x \<Longrightarrow> find P (xs @ ys) = Some x"
  by (induction xs) auto

lemma findUnique_create_new:
  "findUnique w (email u) = None \<Longrightarrow> findUnique (user_create w u) (email u) = Some u"
  by (simp add: findUnique_def user_create_def find_append_None)

lemma findUnique_create_old:
  "findUnique w e = Some x \<Longrightarrow> findUnique (user_create w u) e = Some x"
  by (simp add: findUnique_def user_create_def find_append_Some)

lemma googleSignup_new:
  assumes "findUnique w mail = None" and "pl_email pl = Some mail" and "mail \<noteq> []"
  shows "googleSignup env w (Ticket (Some pl)) =
           (user_create w (googleUser env mail pl),
            \<lparr>status = 201, message = Some ''User created successfully'', err = None,
             token = Some (Jwt (new_id env) ''24h''),
             res_user = Some (identityOf (googleUser env mail pl))\<rparr>)"
  using assms
  by (simp add: googleSignup_def truthy_def googleUser_def Let_def split_beta)

lemma googleSignup_existing:
  assumes "findUnique w mail = Some u" and "pl_email pl = Some mail" and "mail \<noteq> []"
  shows "googleSignup env w (Ticket (Some pl)) =
           (w, \<lparr>status = 200, message = Some ''User already exists'', err = None,
                token = Some (Jwt (user_id u) ''24h''), res_user = Some (identityOf u)\<rparr>)"
  using assms by (simp add: googleSignup_def truthy_def)

lemma bcryptCompare_empty: "bcryptCompare env (JString p) [] = Inr False"
  by (simp add: bcryptCompare_def)

lemma bcryptCompare_not_string:
  "\<forall>q. v \<noteq> JString q \<Longrightarrow>
   bcryptCompare env v h = Inl (''Illegal arguments: '' @ typeof v @ '', string'')"
  by (cases v) (simp_all add: bcryptCompare_def)

lemma login_federated:
  assumes "findUnique w mail = Some u" and "password u = []" and "isVerified u"
  shows "login env w mail (JString p) =
           (w, \<lparr>status = 400, message = Some ''Invalid password'', err = None,
                token = None, res_user = None\<rparr>)"
    and "\<forall>q. v \<noteq> JString q \<Longrightarrow>
         login env w mail v =
           (w, \<lparr>status = 500, message = Some ''Error logging in'',
                err = Some (''Illegal arguments: '' @ typeof v @ '', string''),
                token = None, res_user = None\<rparr>)"
    and "token (snd (login env w mail v)) = None"
proof -
  show "login env w mail (JString p) =
           (w, \<lparr>status = 400, message = Some ''Invalid password'', err = None,
                token = None, res_user = None\<rparr>)"
    using assms
    by (simp add: login_def bcryptCompare_empty InvalidCredentialError_def reply_def)
  show n: "login env w mail v =
           (w, \<lparr>status = 500, message = Some ''Error logging in'',
                err = Some (''Illegal arguments: '' @ typeof v @ '', string''),
                token = None, res_user = None\<rparr>)" if "\<forall>q. v \<noteq> JString q"
    using assms that by (simp add: login_def bcryptCompare_not_string failure_def)
  show "token (snd (login env w mail v)) = None"
  proof (cases "\<exists>q. v = JString q")
    case True
    then obtain q where "v = JString q" by blast
    with assms show ?thesis
      by (simp add: login_def bcryptCompare_empty InvalidCredentialError_def reply_def)
  next
    case False
    then have "\<forall>q. v \<noteq> JString q" by blast
    from n [OF this] show ?thesis by simp
  qed
qed

text \<open>
  C3 (as amended): for an account whose stored hash is the empty string, whether found so
  in the store (and verified) or just created by \<open>googleSignup\<close>, \<open>login\<close> answers every
  submitted string with the invalid-credential failure (status 400, ``Invalid password'');
  it answers a password that is not a string (absent, \<open>null\<close>, a number, a boolean, an
  object) with status 500, ``Error logging in'' and the error bcrypt throws; and it issues
  no token for any submitted value. This holds for every hashing behind
  \<open>bcrypt_compare\<close>: the empty hash has not 60 characters.
\<close>

theorem federated_login_rejected:
  "(findUnique w mail = Some u \<and> password u = [] \<and> isVerified u \<longrightarrow>
      login env w mail (JString p) =
        (w, \<lparr>status = 400, message = Some ''Invalid password'', err = None,
             token = None, res_user = None\<rparr>) \<and>
      ((\<forall>q. v \<noteq> JString q) \<longrightarrow>
         login env w mail v =
           (w, \<lparr>status = 500, message = Some ''Error logging in'',
                err = Some (''Illegal arguments: '' @ typeof v @ '', string''),
                token = None, res_user = None\<rparr>)) \<and>
      token (snd (login env w mail v)) = None) \<and>
   (findUnique w mail = None \<and> pl_email pl = Some mail \<and> mail \<noteq> [] \<longrightarrow>
      (let w' = fst (googleSignup env' w (Ticket (Some pl)))
       in (\<exists>x. findUnique w' mail = Some x \<and> password x = [] \<and> isVerified x) \<and>
          login env w' mail (JString p) =
            (w', \<lparr>status = 400, message = Some ''Invalid password'', err = None,
                  token = None, res_user = None\<rparr>) \<and>
          ((\<forall>q. v \<noteq> JString q) \<longrightarrow>
             login env w' mail v =
               (w', \<lparr>status = 500, message = Some ''Error logging in'',
                     err = Some (''Illegal arguments: '' @ typeof v @ '', string''),
                     token = None, res_user = None\<rparr>)) \<and>
          token (snd (login env w' mail v)) = None))"
proof (intro conjI impI)
  assume a: "findUnique w mail = Some u \<and> password u = [] \<and> isVerified u"
  then have f: "findUnique w mail = Some u" and e: "password u = []" and v: "isVerified u"
    by simp_all
  show "login env w mail (JString p) =
        (w, \<lparr>status = 400, message = Some ''Invalid password'', err = None,
             token = None, res_user = None\<rparr>)"
    using f e v by (rule login_federated(1))
  show "token (snd (login env w mail v)) = None"
    using f e v by (rule login_federated(3))
  show "login env w mail v =
           (w, \<lparr>status = 500, message = Some ''Error logging in'',
                err = Some (''Illegal arguments: '' @ typeof v @ '', string''),
                token = None, res_user = None\<rparr>)" if "\<forall>q. v \<noteq> JString q"
    using f e v that by (rule login_federated(2))
next
  assume a: "findUnique w mail = None \<and> pl_email pl = Some mail \<and> mail \<noteq> []"
  let ?u = "googleUser env' mail pl"
  let ?w = "user_create w ?u"
  have e: "email ?u = mail" and p: "password ?u = []" and v: "isVerified ?u"
    by (simp_all add: googleUser_def)
  from a have g: "fst (googleSignup env' w (Ticket (Some pl))) = ?w"
    using googleSignup_new [of w mail pl env'] by simp
  from a e have f: "findUnique ?w mail = Some ?u"
    using findUnique_create_new [of w ?u] by simp
  have "(\<exists>x. findUnique ?w mail = Some x \<and> password x = [] \<and> isVerified x) \<and>
          login env ?w mail (JString p) =
            (?w, \<lparr>status = 400, message = Some ''Invalid password'', err = None,
                  token = None, res_user = None\<rparr>) \<and>
          ((\<forall>q. v \<noteq> JString q) \<longrightarrow>
             login env ?w mail v =
               (?w, \<lparr>status = 500, message = Some ''Error logging in'',
                     err = Some (''Illegal arguments: '' @ typeof v @ '', string''),
                     token = None, res_user = None\<rparr>)) \<and>
          token (snd (login env ?w mail v)) = None"
    using f p v login_federated [OF f p v] by blast
  then show "let w' = fst (googleSignup env' w (Ticket (Some pl)))
       in (\<exists>x. findUnique w' mail = Some x \<and> password x = [] \<and> isVerified x) \<and>
          login env w' mail (JString p) =
            (w', \<lparr>status = 400, message = Some ''Invalid password'', err = None,
                  token = None, res_user = None\<rparr>) \<and>
          ((\<forall>q. v \<noteq> JString q) \<longrightarrow>
             login env w' mail v =
               (w', \<lparr>status = 500, message = Some ''Error logging in'',
                     err = Some (''Illegal arguments: '' @ typeof v @ '', string''),
                     token = None, res_user = None\<rparr>)) \<and>
          token (snd (login env w' mail v)) = None"
    unfolding Let_def g .
qed

lemma google_example:
  "googleSignup example_env empty_world (Ticket (Some google_payload)) =
     (empty_world\<lparr>users := [google_user]\<rparr>,
      \<lparr>status = 201, message = Some ''User created successfully'', err = None,
       token = Some (Jwt 7 ''24h''), res_user = Some (identityOf google_user)\<rparr>)"
  by (simp add: googleSignup_def google_payload_def truthy_def findUnique_def empty_world_def
      deriveNames_def first_def user_create_def example_env_def google_user_def Let_def)

lemma google_world_find: "findUnique google_world ''ada@x.com'' = Some google_user"
  by (simp add: findUnique_def google_world_def google_user_def)

theorem federated_login_rejected_witness:
  "findUnique empty_world ''ada@x.com'' = None \<and>
   fst (googleSignup example_env empty_world (Ticket (Some google_payload))) = google_world \<and>
   password google_user = [] \<and>
   login example_env google_world ''ada@x.com'' (JString ''Abc123!'') =
     (google_world, \<lparr>status = 400, message = Some ''Invalid password'', err = None,
                     token = None, res_user = None\<rparr>) \<and>
   login example_env google_world ''ada@x.com'' JNull =
     (google_world, \<lparr>status = 500, message = Some ''Error logging in'',
                     err = Some ''Illegal arguments: object, string'',
                     token = None, res_user = None\<rparr>)"
proof -
  have f: "findUnique empty_world ''ada@x.com'' = None"
    by (simp add: findUnique_def empty_world_def)
  have m: "pl_email google_payload = Some ''ada@x.com''"
    by (simp add: google_payload_def)
  have p: "password google_user = []"
    by (simp add: google_user_def)
  have g: "fst (googleSignup example_env empty_world (Ticket (Some google_payload))) =
      google_world"
    by (simp add: google_example google_world_def)
  have n: "\<forall>q. JNull \<noteq> JString q"
    by simp
  from federated_login_rejected
    [of empty_world "''ada@x.com''" _ example_env "''Abc123!''" JNull google_payload example_env]
    f m n
  have "login example_env google_world ''ada@x.com'' (JString ''Abc123!'') =
     (google_world, \<lparr>status = 400, message = Some ''Invalid password'', err = None,
                     token = None, res_user = None\<rparr>) \<and>
   login example_env google_world ''ada@x.com'' JNull =
     (google_world, \<lparr>status = 500, message = Some ''Error logging in'',
                     err = Some (''Illegal arguments: '' @ typeof JNull @ '', string''),
                     token = None, res_user = None\<rparr>)"
    by (simp add: g Let_def)
  then show ?thesis
    using f g p by (simp add: typeof_def)
qed

text \<open>
  C3 as stated fails: when the request carries no password, bcrypt throws and \<open>login\<close>
  answers a federated-only account with status 500, not with the invalid-credential
  failure.
\<close>

theorem federated_login_counterexample:
  "findUnique google_world ''ada@x.com'' = Some google_user \<and>
   password google_user = [] \<and> isVerified google_user \<and>
   login example_env google_world ''ada@x.com'' JUndefined =
     (google_world, \<lparr>status = 500, message = Some ''Error logging in'',
                     err = Some ''Illegal arguments: undefined, string'',
                     token = None, res_user = None\<rparr>) \<and>
   snd (login example_env google_world ''ada@x.com'' JUndefined) \<noteq> InvalidCredentialError"
  by (simp add: google_world_find login_def bcryptCompare_def typeof_def failure_def
      InvalidCredentialError_def reply_def)
    (simp add: google_user_def)

section \<open>One-time code checks\<close>

lemma verifyOtp_invalid:
  assumes "findUnique w mail = Some u"
    and "otp u \<noteq> Some code \<or> now env > dateValue (otpExpiry u)"
  shows "verifyOtp env w mail code = (w, InvalidOtpError)"
  using assms by (auto simp add: verifyOtp_def)

lemma verifyOtp_valid:
  assumes "findUnique w mail = Some u"
    and "otp u = Some code" and "\<not> now env > dateValue (otpExpiry u)"
  shows "verifyOtp env w mail code =
           (user_update w mail (\<lambda>x. x\<lparr>isVerified := True, otp := None, otpExpiry := None\<rparr>),
            \<lparr>status = 200, message = Some ''Email verified successfully'', err = None,
             token = Some (Jwt (user_id u) ''240h''), res_user = None\<rparr>)"
  using assms by (simp add: verifyOtp_def)

lemma resetPassword_invalid:
  assumes "validatePassword pw" and "findUnique w mail = Some u"
    and "otp u \<noteq> Some code \<or> now env > dateValue (otpExpiry u)"
  shows "resetPassword env w mail code pw = (w, InvalidOtpError)"
  using assms by (auto simp add: resetPassword_def)

lemma resetPassword_valid:
  assumes "validatePassword pw" and "findUnique w mail = Some u"
    and "otp u = Some code" and "\<not> now env > dateValue (otpExpiry u)"
  shows "resetPassword env w mail code pw =
           (user_update w mail
              (\<lambda>x. x\<lparr>password := bcrypt_hash env pw 10, otp := None, otpExpiry := None\<rparr>),
            reply 200 ''Password reset successfully'')"
  using assms by (simp add: resetPassword_def)

text \<open>Under the pairing of code and expiry, the test of the handlers in the claim's terms.\<close>

lemma otp_test_paired:
  assumes "otpPaired u"
  shows "(otp u \<noteq> Some code \<or> now env > dateValue (otpExpiry u)) =
         (otp u \<noteq> Some code \<or> (\<exists>t. otpExpiry u = Some t \<and> t < now env))"
  using assms by (cases "otpExpiry u") (auto simp add: otpPaired_def dateValue_def)

text \<open>
  C5 (as amended): for an existing account whose code and expiry are paired, \<open>verifyOtp\<close>,
  and \<open>resetPassword\<close> once the new password has passed the policy, answer with the
  invalid-code failure exactly when the stored code differs from the supplied one or the
  clock is past the stored expiry, and succeed otherwise. The failure is one and the same
  response (status 400, ``Invalid or expired OTP'') for a wrong code and for an expired
  one, and it leaves the world unchanged.
\<close>

theorem otp_failure_exact:
  assumes "findUnique w mail = Some u" and "otpPaired u"
  shows "((otp u \<noteq> Some code \<or> (\<exists>t. otpExpiry u = Some t \<and> t < now env)) \<longrightarrow>
            verifyOtp env w mail code = (w, InvalidOtpError) \<and>
            (validatePassword pw \<longrightarrow> resetPassword env w mail code pw = (w, InvalidOtpError))) \<and>
         (\<not> (otp u \<noteq> Some code \<or> (\<exists>t. otpExpiry u = Some t \<and> t < now env)) \<longrightarrow>
            status (snd (verifyOtp env w mail code)) = 200 \<and>
            (validatePassword pw \<longrightarrow> status (snd (resetPassword env w mail code pw)) = 200)) \<and>
         status InvalidOtpError = 400 \<and>
         message InvalidOtpError = Some ''Invalid or expired OTP''"
proof -
  let ?claim = "otp u \<noteq> Some code \<or> (\<exists>t. otpExpiry u = Some t \<and> t < now env)"
  let ?test = "otp u \<noteq> Some code \<or> now env > dateValue (otpExpiry u)"
  have eq: "?test = ?claim"
    using assms(2) by (rule otp_test_paired)
  have bad: "?claim \<longrightarrow> verifyOtp env w mail code = (w, InvalidOtpError) \<and>
      (validatePassword pw \<longrightarrow> resetPassword env w mail code pw = (w, InvalidOtpError))"
  proof
    assume ?claim
    with eq have t: ?test by simp
    show "verifyOtp env w mail code = (w, InvalidOtpError) \<and>
      (validatePassword pw \<longrightarrow> resetPassword env w mail code pw = (w, InvalidOtpError))"
      using assms(1) t by (simp add: verifyOtp_invalid resetPassword_invalid)
  qed
  have good: "\<not> ?claim \<longrightarrow> status (snd (verifyOtp env w mail code)) = 200 \<and>
      (validatePassword pw \<longrightarrow> status (snd (resetPassword env w mail code pw)) = 200)"
  proof
    assume "\<not> ?claim"
    with eq have t: "otp u = Some code" "\<not> now env > dateValue (otpExpiry u)" by auto
    show "status (snd (verifyOtp env w mail code)) = 200 \<and>
      (validatePassword pw \<longrightarrow> status (snd (resetPassword env w mail code pw)) = 200)"
      using assms(1) t by (simp add: verifyOtp_valid resetPassword_valid reply_def)
  qed
  have "status InvalidOtpError = 400" "message InvalidOtpError = Some ''Invalid or expired OTP''"
    by (simp_all add: InvalidOtpError_def reply_def)
  with bad good show ?thesis by blast
qed

theorem otp_failure_exact_witness:
  "findUnique example_world ''a@x.com'' = Some example_user \<and> otpPaired example_user \<and>
   validatePassword ''Abc123!'' \<and>
   verifyOtp example_env example_world ''a@x.com'' ''111111'' = (example_world, InvalidOtpError) \<and>
   verifyOtp (example_env\<lparr>now := 601001\<rparr>) example_world ''a@x.com'' ''550000'' =
     (example_world, InvalidOtpError) \<and>
   resetPassword example_env example_world ''a@x.com'' ''111111'' ''Abc123!'' =
     (example_world, InvalidOtpError) \<and>
   resetPassword (example_env\<lparr>now := 601001\<rparr>) example_world ''a@x.com'' ''550000'' ''Abc123!'' =
     (example_world, InvalidOtpError) \<and>
   status (snd (verifyOtp (example_env\<lparr>now := 601000\<rparr>) example_world ''a@x.com'' ''550000'')) = 200 \<and>
   status (snd (resetPassword (example_env\<lparr>now := 601000\<rparr>) example_world ''a@x.com'' ''550000'' ''Abc123!'')) = 200"
proof -
  have p: "otpPaired example_user"
    by (simp add: otpPaired_def example_user_def)
  have v: "validatePassword ''Abc123!''"
    by (simp add: validatePassword_def char_class_defs)
  have o: "otp example_user = Some ''550000''" "otpExpiry example_user = Some 601000"
    by (simp_all add: example_user_def)
  note t = otp_failure_exact [OF example_world_find p, where pw = "''Abc123!''"]
  have wrong: "verifyOtp example_env example_world ''a@x.com'' ''111111'' = (example_world, InvalidOtpError) \<and>
       resetPassword example_env example_world ''a@x.com'' ''111111'' ''Abc123!'' = (example_world, InvalidOtpError)"
    using t [of "''111111''" example_env] o v by simp
  have late: "verifyOtp (example_env\<lparr>now := 601001\<rparr>) example_world ''a@x.com'' ''550000'' = (example_world, InvalidOtpError) \<and>
       resetPassword (example_env\<lparr>now := 601001\<rparr>) example_world ''a@x.com'' ''550000'' ''Abc123!'' = (example_world, InvalidOtpError)"
    using t [of "''550000''" "example_env\<lparr>now := 601001\<rparr>"] o v by simp
  have ok: "status (snd (verifyOtp (example_env\<lparr>now := 601000\<rparr>) example_world ''a@x.com'' ''550000'')) = 200 \<and>
       status (snd (resetPassword (example_env\<lparr>now := 601000\<rparr>) example_world ''a@x.com'' ''550000'' ''Abc123!'')) = 200"
    using t [of "''550000''" "example_env\<lparr>now := 601000\<rparr>"] o v by simp
  from example_world_find p v wrong late ok show ?thesis by blast
qed

text \<open>
  C5 as stated fails for \<open>resetPassword\<close>: the password policy is checked first, so a
  wrong code sent with a password that fails the policy is answered with the validation
  failure, not with the invalid-code failure.
\<close>

theorem otp_failure_reset_counterexample:
  "findUnique example_world ''a@x.com'' = Some example_user \<and>
   otp example_user \<noteq> Some ''111111'' \<and>
   resetPassword example_env example_world ''a@x.com'' ''111111'' ''abc'' =
     (example_world, ValidationError) \<and>
   ValidationError \<noteq> InvalidOtpError"
proof -
  have "\<not> validatePassword ''abc''"
    by (simp add: validatePassword_def)
  then have "resetPassword example_env example_world ''a@x.com'' ''111111'' ''abc'' =
     (example_world, ValidationError)"
    by (rule resetPassword_rejected)
  moreover have "otp example_user \<noteq> Some ''111111''"
    by (simp add: example_user_def)
  moreover have "ValidationError \<noteq> InvalidOtpError"
    by (simp add: ValidationError_def InvalidOtpError_def reply_def passwordMessage_def)
  ultimately show ?thesis
    using example_world_find by blast
qed

section \<open>Pairing of code and expiry\<close>

lemma paired_create: "paired w \<Longrightarrow> otpPaired u \<Longrightarrow> paired (user_create w u)"
  by (simp add: paired_def user_create_def)

lemma paired_update:
  "paired w \<Longrightarrow> (\<And>x. otpPaired (f x)) \<Longrightarrow> paired (user_update w e f)"
  by (auto simp add: paired_def user_update_def list_all_iff)

lemma paired_outbox: "paired (w\<lparr>outbox := ms\<rparr>) = paired w"
  by (simp add: paired_def)

lemma paired_sendEmail: "sendEmail env w a b c = Inr w' \<Longrightarrow> paired w' = paired w"
  by (auto simp add: sendEmail_def paired_def split: option.splits)

lemma paired_signup: "paired w \<Longrightarrow> paired (fst (signup env w f l e p))"
  by (auto simp add: signup_def Let_def otpPaired_def paired_create paired_sendEmail
      split: option.splits sum.splits)

lemma paired_verifyOtp: "paired w \<Longrightarrow> paired (fst (verifyOtp env w e c))"
  by (auto simp add: verifyOtp_def otpPaired_def paired_update split: option.splits)

lemma paired_login: "paired w \<Longrightarrow> paired (fst (login env w e p))"
  by (auto simp add: login_def split: option.splits sum.splits)

lemma paired_forgotPassword: "paired w \<Longrightarrow> paired (fst (forgotPassword env w e))"
  by (auto simp add: forgotPassword_def Let_def otpPaired_def paired_update paired_sendEmail
      split: option.splits sum.splits)

lemma paired_resetPassword: "paired w \<Longrightarrow> paired (fst (resetPassword env w e c p))"
  by (auto simp add: resetPassword_def Let_def otpPaired_def paired_update split: option.splits)

lemma andThen_Inr:
  "andThen r f = Inr w' \<Longrightarrow> \<exists>w1. r = Inr w1 \<and> f w1 = Inr w'"
  by (cases r) (simp_all add: andThen_def)

lemma paired_tx_steps:
  "projectAverage_deleteMany env i w = Inr w' \<Longrightarrow> paired w \<Longrightarrow> paired w'"
  "project_deleteMany env i w = Inr w' \<Longrightarrow> paired w \<Longrightarrow> paired w'"
  "profile_delete env i w = Inr w' \<Longrightarrow> paired w \<Longrightarrow> paired w'"
  "user_delete env i w = Inr w' \<Longrightarrow> paired w \<Longrightarrow> paired w'"
  by (auto simp add: projectAverage_deleteMany_def project_deleteMany_def profile_delete_def
      user_delete_def paired_def list_all_iff split: option.splits if_splits)

lemma paired_deleteCascade:
  assumes "deleteCascade env u prof w = Inr w'" and "paired w"
  shows "paired w'"
proof -
  from assms(1) obtain w1 w2 w3 where
    s1: "(case prof of Some p \<Rightarrow> projectAverage_deleteMany env (profile_id p) w | None \<Rightarrow> Inr w) = Inr w1"
    and s2: "project_deleteMany env (user_id u) w1 = Inr w2"
    and s3: "(case prof of Some p \<Rightarrow> profile_delete env (user_id u) w2 | None \<Rightarrow> Inr w2) = Inr w3"
    and s4: "user_delete env (user_id u) w3 = Inr w'"
    unfolding deleteCascade_def by (blast dest: andThen_Inr)
  from s1 assms(2) have "paired w1"
    by (cases prof) (auto dest: paired_tx_steps)
  with s2 have "paired w2"
    by (auto dest: paired_tx_steps)
  with s3 have "paired w3"
    by (cases prof) (auto dest: paired_tx_steps)
  with s4 show ?thesis
    by (auto dest: paired_tx_steps)
qed

lemma paired_deleteAccount: "paired w \<Longrightarrow> paired (fst (deleteAccount env w e p))"
  by (auto simp add: deleteAccount_def transaction_def split: option.splits sum.splits
      dest: paired_deleteCascade)

lemma paired_googleSignup: "paired w \<Longrightarrow> paired (fst (googleSignup env w v))"
  by (auto simp add: googleSignup_def Let_def split_beta otpPaired_def paired_create
      split: verification.splits option.splits)

lemma paired_handle: "paired w \<Longrightarrow> paired (fst (handle env w rq))"
  by (cases rq)
    (simp_all add: paired_signup paired_verifyOtp paired_login paired_forgotPassword
      paired_resetPassword paired_deleteAccount paired_googleSignup logout_def)

lemma paired_run: "paired w \<Longrightarrow> paired (run w rqs)"
  by (induction rqs arbitrary: w) (auto simp add: paired_handle)

lemma paired_empty: "paired empty_world"
  by (simp add: paired_def empty_world_def)

text \<open>
  C7: the pending code and its expiry are both \<open>null\<close> or both set in every row of the
  user table, in every world reached from the empty one by any sequence of requests to any
  of the handlers (\<open>signup\<close>, \<open>verifyOtp\<close>, \<open>forgotPassword\<close> and \<open>resetPassword\<close>
  among them), whatever the collaborators do; and every single request preserves it.
\<close>

theorem code_and_expiry_paired:
  "paired (run empty_world rqs) \<and> (paired w \<longrightarrow> paired (fst (handle env w rq)))"
  by (simp add: paired_run paired_empty paired_handle)


theorem code_and_expiry_paired_witness:
  "paired example_world \<and>
   paired (fst (handle example_env example_world (VerifyOtp ''a@x.com'' ''550000''))) \<and>
   users (fst (handle example_env example_world (VerifyOtp ''a@x.com'' ''550000''))) =
     [example_user\<lparr>isVerified := True, otp := None, otpExpiry := None\<rparr>] \<and>
   paired (run empty_world
     [(example_env, Signup ''A'' ''B'' ''a@x.com'' ''Abc123!''),
      (example_env, ForgotPassword ''a@x.com''),
      (example_env, ResetPassword ''a@x.com'' ''550000'' ''Xyz789?'')])"
proof -
  have p: "paired example_world"
    by (simp add: paired_def example_world_def otpPaired_def example_user_def)
  have u: "users (fst (handle example_env example_world (VerifyOtp ''a@x.com'' ''550000''))) =
     [example_user\<lparr>isVerified := True, otp := None, otpExpiry := None\<rparr>]"
    by (simp add: verifyOtp_def example_world_find user_update_def)
      (simp add: example_user_def example_env_def dateValue_def example_world_def)
  from code_and_expiry_paired [of _ example_world example_env] p u show ?thesis
    by blast
qed

section \<open>Federated sign-in\<close>

lemma find_None_filter: "(find P xs = None) = (filter P xs = [])"
  by (induction xs) auto

lemma accountsOf_None: "findUnique w e = None \<Longrightarrow> accountsOf w e = 0"
  by (simp add: findUnique_def accountsOf_def find_None_filter)

lemma accountsOf_Some: "findUnique w e = Some u \<Longrightarrow> 1 \<le> accountsOf w e"
proof -
  assume "findUnique w e = Some u"
  then have "filter (\<lambda>u. email u = e) (users w) \<noteq> []"
    using find_None_filter [of "\<lambda>u. email u = e" "users w"] by (simp add: findUnique_def)
  then show ?thesis
    by (cases "filter (\<lambda>u. email u = e) (users w)") (simp_all add: accountsOf_def)
qed

lemma accountsOf_create:
  "accountsOf (user_create w u) e = accountsOf w e + (if email u = e then 1 else 0)"
  by (simp add: accountsOf_def user_create_def)

lemma find_Some_mem: "find P xs = Some x \<Longrightarrow> x \<in> set xs \<and> P x"
  by (induction xs) (auto split: if_splits)

lemma findUnique_mem: "findUnique w e = Some u \<Longrightarrow> u \<in> set (users w) \<and> email u = e"
  unfolding findUnique_def by (rule find_Some_mem)

text \<open>What the second call answers when the account \<open>u\<close> is found for the address.\<close>

lemma googleSignup_second:
  assumes "findUnique w mail = Some u" and "pl_email pl = Some mail" and "mail \<noteq> []"
  shows "googleSignup env w (Ticket (Some pl)) =
           (w, \<lparr>status = 200, message = Some ''User already exists'', err = None,
                token = Some (Jwt (user_id u) ''24h''),
                res_user = Some \<lparr>ident_id = user_id u, ident_email = mail,
                                 ident_firstName = firstName u,
                                 ident_lastName = lastName u\<rparr>\<rparr>)"
proof -
  from assms(1) have "email u = mail"
    by (simp add: findUnique_mem)
  with googleSignup_existing [OF assms] show ?thesis
    by (simp add: identityOf_def)
qed

text \<open>
  C8: two calls of \<open>googleSignup\<close> whose verified payloads carry the same address, on a
  world where the address has at most one account, leave exactly one account for it and
  add at most one row to the user table. The second call creates nothing (the world after
  it is the world before it) and answers 200, ``User already exists'', with a 24-hour
  token for the account found under the address and with that account's \<open>id\<close>,
  \<open>email\<close>, \<open>firstName\<close> and \<open>lastName\<close>, the same identity the first call returned.
\<close>

theorem federated_signin_once:
  assumes "pl_email pl1 = Some mail" and "pl_email pl2 = Some mail" and "mail \<noteq> []"
    and "accountsOf w mail \<le> 1"
  shows "let (w1, r1) = googleSignup env1 w (Ticket (Some pl1));
             (w2, r2) = googleSignup env2 w1 (Ticket (Some pl2))
         in w2 = w1 \<and> accountsOf w2 mail = 1 \<and>
            length (users w2) \<le> Suc (length (users w)) \<and>
            res_user r2 = res_user r1 \<and>
            (\<exists>u. findUnique w1 mail = Some u \<and> u \<in> set (users w1) \<and> email u = mail \<and>
                 r2 = \<lparr>status = 200, message = Some ''User already exists'', err = None,
                       token = Some (Jwt (user_id u) ''24h''),
                       res_user = Some \<lparr>ident_id = user_id u, ident_email = mail,
                                        ident_firstName = firstName u,
                                        ident_lastName = lastName u\<rparr>\<rparr>)"
proof (cases "findUnique w mail")
  case None
  let ?u = "googleUser env1 mail pl1"
  have e: "email ?u = mail"
    by (simp add: googleUser_def)
  have first: "googleSignup env1 w (Ticket (Some pl1)) =
      (user_create w ?u,
       \<lparr>status = 201, message = Some ''User created successfully'', err = None,
        token = Some (Jwt (new_id env1) ''24h''), res_user = Some (identityOf ?u)\<rparr>)"
    using None assms(1,3) by (rule googleSignup_new)
  have f: "findUnique (user_create w ?u) mail = Some ?u"
    using findUnique_create_new [of w ?u] None e by simp
  have second: "googleSignup env2 (user_create w ?u) (Ticket (Some pl2)) =
      (user_create w ?u,
       \<lparr>status = 200, message = Some ''User already exists'', err = None,
        token = Some (Jwt (user_id ?u) ''24h''),
        res_user = Some \<lparr>ident_id = user_id ?u, ident_email = mail,
                         ident_firstName = firstName ?u, ident_lastName = lastName ?u\<rparr>\<rparr>)"
    using f assms(2,3) by (rule googleSignup_second)
  have c: "accountsOf (user_create w ?u) mail = 1"
    using accountsOf_None [OF None] e by (simp add: accountsOf_create)
  have l: "length (users (user_create w ?u)) \<le> Suc (length (users w))"
    by (simp add: user_create_def)
  have i: "identityOf ?u = \<lparr>ident_id = user_id ?u, ident_email = mail,
                         ident_firstName = firstName ?u, ident_lastName = lastName ?u\<rparr>"
    by (simp add: identityOf_def e)
  from findUnique_mem [OF f] have m: "?u \<in> set (users (user_create w ?u))"
    by simp
  show ?thesis
    unfolding first second Let_def prod.case
    using c l i f m e by (intro conjI exI [of _ ?u]) simp_all
next
  case (Some u)
  have first: "googleSignup env1 w (Ticket (Some pl1)) =
      (w, \<lparr>status = 200, message = Some ''User already exists'', err = None,
           token = Some (Jwt (user_id u) ''24h''),
           res_user = Some \<lparr>ident_id = user_id u, ident_email = mail,
                            ident_firstName = firstName u, ident_lastName = lastName u\<rparr>\<rparr>)"
    using Some assms(1,3) by (rule googleSignup_second)
  have second: "googleSignup env2 w (Ticket (Some pl2)) =
      (w, \<lparr>status = 200, message = Some ''User already exists'', err = None,
           token = Some (Jwt (user_id u) ''24h''),
           res_user = Some \<lparr>ident_id = user_id u, ident_email = mail,
                            ident_firstName = firstName u, ident_lastName = lastName u\<rparr>\<rparr>)"
    using Some assms(2,3) by (rule googleSignup_second)
  have c: "accountsOf w mail = 1"
    using accountsOf_Some [OF Some] assms(4) by simp
  from findUnique_mem [OF Some] have m: "u \<in> set (users w)" "email u = mail"
    by simp_all
  show ?thesis
    unfolding first second Let_def prod.case
    using c Some m by (intro conjI exI [of _ u]) simp_all
qed

theorem federated_signin_once_witness:
  "accountsOf empty_world ''ada@x.com'' \<le> 1 \<and>
   googleSignup example_env empty_world (Ticket (Some google_payload)) =
     (google_world,
      \<lparr>status = 201, message = Some ''User created successfully'', err = None,
       token = Some (Jwt 7 ''24h''),
       res_user = Some \<lparr>ident_id = 7, ident_email = ''ada@x.com'',
                        ident_firstName = ''Ada'', ident_lastName = ''Lovelace''\<rparr>\<rparr>) \<and>
   googleSignup (example_env\<lparr>new_id := 8\<rparr>) google_world
       (Ticket (Some (google_payload\<lparr>pl_name := Some ''A. Lovelace''\<rparr>))) =
     (google_world,
      \<lparr>status = 200, message = Some ''User already exists'', err = None,
       token = Some (Jwt 7 ''24h''),
       res_user = Some \<lparr>ident_id = 7, ident_email = ''ada@x.com'',
                        ident_firstName = ''Ada'', ident_lastName = ''Lovelace''\<rparr>\<rparr>) \<and>
   users google_world = [google_user] \<and>
   accountsOf google_world ''ada@x.com'' = 1"
proof -
  have a: "accountsOf empty_world ''ada@x.com'' \<le> 1"
    by (simp add: accountsOf_def empty_world_def)
  have m: "pl_email google_payload = Some ''ada@x.com''"
    "pl_email (google_payload\<lparr>pl_name := Some ''A. Lovelace''\<rparr>) = Some ''ada@x.com''"
    by (simp_all add: google_payload_def)
  have n: "''ada@x.com'' \<noteq> []"
    by simp
  have g: "googleSignup example_env empty_world (Ticket (Some google_payload)) =
     (google_world,
      \<lparr>status = 201, message = Some ''User created successfully'', err = None,
       token = Some (Jwt 7 ''24h''),
       res_user = Some \<lparr>ident_id = 7, ident_email = ''ada@x.com'',
                        ident_firstName = ''Ada'', ident_lastName = ''Lovelace''\<rparr>\<rparr>)"
    by (simp add: google_example google_world_def identityOf_def google_user_def)
  have u: "user_id google_user = 7" "firstName google_user = ''Ada''"
    "lastName google_user = ''Lovelace''" "users google_world = [google_user]"
    by (simp_all add: google_user_def google_world_def empty_world_def)
  from federated_signin_once [OF m(1) m(2) n a, of example_env "example_env\<lparr>new_id := 8\<rparr>"]
  have "googleSignup (example_env\<lparr>new_id := 8\<rparr>) google_world
       (Ticket (Some (google_payload\<lparr>pl_name := Some ''A. Lovelace''\<rparr>))) =
     (google_world,
      \<lparr>status = 200, message = Some ''User already exists'', err = None,
       token = Some (Jwt 7 ''24h''),
       res_user = Some \<lparr>ident_id = 7, ident_email = ''ada@x.com'',
                        ident_firstName = ''Ada'', ident_lastName = ''Lovelace''\<rparr>\<rparr>) \<and>
     accountsOf google_world ''ada@x.com'' = 1"
    unfolding g Let_def prod.case
    by (cases "googleSignup (example_env\<lparr>new_id := 8\<rparr>) google_world
       (Ticket (Some (google_payload\<lparr>pl_name := Some ''A. Lovelace''\<rparr>)))")
      (auto simp add: google_world_find u)
  with a g u(4) show ?thesis
    by blast
qed

section \<open>Names of a federated account\<close>

lemma split_nonempty: "split c s \<noteq> []"
  by (induction s) (auto split: list.splits)

lemma first_split: "first (split c s) = takeWhile (\<lambda>x. x \<noteq> c) s"
  by (induction s) (auto simp add: first_def split: list.splits)

lemma join_split: "join c (split c s) = s"
proof (induction s)
  case Nil
  show ?case by simp
next
  case (Cons x xs)
  obtain p ps where sp: "split c xs = p # ps"
    using split_nonempty [of c xs] by (cases "split c xs") auto
  show ?case
  proof (cases "x = c")
    case True
    with Cons sp show ?thesis by simp
  next
    case False
    with Cons sp show ?thesis by (cases ps) auto
  qed
qed

lemma join_tl_split: "join c (tl (split c s)) = drop 1 (dropWhile (\<lambda>x. x \<noteq> c) s)"
proof (induction s)
  case Nil
  show ?case by simp
next
  case (Cons x xs)
  obtain p ps where sp: "split c xs = p # ps"
    using split_nonempty [of c xs] by (cases "split c xs") auto
  show ?case
  proof (cases "x = c")
    case True
    then show ?thesis using join_split [of c xs] by simp
  next
    case False
    with Cons sp show ?thesis by simp
  qed
qed

lemma deriveNames_given:
  "pl_given_name pl = Some g \<Longrightarrow> g \<noteq> [] \<Longrightarrow> pl_family_name pl = Some f \<Longrightarrow> f \<noteq> [] \<Longrightarrow>
   deriveNames mail pl = (g, f)"
  by (simp add: deriveNames_def truthy_def)

lemma deriveNames_name:
  "\<not> (truthy (pl_given_name pl) \<and> truthy (pl_family_name pl)) \<Longrightarrow>
   pl_name pl = Some n \<Longrightarrow> n \<noteq> [] \<Longrightarrow>
   deriveNames mail pl =
     (takeWhile (\<lambda>c. c \<noteq> CHR '' '') n, drop 1 (dropWhile (\<lambda>c. c \<noteq> CHR '' '') n))"
  by (auto simp add: deriveNames_def truthy_def first_split join_tl_split Let_def)

lemma deriveNames_email:
  "\<not> (truthy (pl_given_name pl) \<and> truthy (pl_family_name pl)) \<Longrightarrow>
   \<not> truthy (pl_name pl) \<Longrightarrow>
   deriveNames mail pl = (takeWhile (\<lambda>c. c \<noteq> CHR ''@'') mail, [])"
  by (auto simp add: deriveNames_def first_split)

text \<open>
  C9 (as amended): the account \<open>googleSignup\<close> creates takes its names (a) from the given
  and family name when both are supplied and non-empty; (b) otherwise, when a non-empty
  display name is supplied, by cutting it at its first space character: the text before it
  is the first name and the text after it the last name; (c) otherwise the first name is
  the address up to its first \<open>@\<close> and the last name is empty.
\<close>

theorem names_derived:
  assumes "findUnique w mail = None" and "pl_email pl = Some mail" and "mail \<noteq> []"
  shows "\<exists>u. findUnique (fst (googleSignup env w (Ticket (Some pl)))) mail = Some u \<and>
           (firstName u, lastName u) = deriveNames mail pl \<and>
           (\<forall>g f. pl_given_name pl = Some g \<and> g \<noteq> [] \<and> pl_family_name pl = Some f \<and> f \<noteq> [] \<longrightarrow>
              firstName u = g \<and> lastName u = f) \<and>
           (\<forall>n. \<not> (truthy (pl_given_name pl) \<and> truthy (pl_family_name pl)) \<and>
              pl_name pl = Some n \<and> n \<noteq> [] \<longrightarrow>
              firstName u = takeWhile (\<lambda>c. c \<noteq> CHR '' '') n \<and>
              lastName u = drop 1 (dropWhile (\<lambda>c. c \<noteq> CHR '' '') n)) \<and>
           (\<not> (truthy (pl_given_name pl) \<and> truthy (pl_family_name pl)) \<and>
              \<not> truthy (pl_name pl) \<longrightarrow>
              firstName u = takeWhile (\<lambda>c. c \<noteq> CHR ''@'') mail \<and> lastName u = [])"
proof -
  let ?u = "googleUser env mail pl"
  have e: "email ?u = mail"
    by (simp add: googleUser_def)
  have g: "fst (googleSignup env w (Ticket (Some pl))) = user_create w ?u"
    using googleSignup_new [OF assms] by simp
  have f: "findUnique (user_create w ?u) mail = Some ?u"
    using findUnique_create_new [of w ?u] assms(1) e by simp
  have n: "(firstName ?u, lastName ?u) = deriveNames mail pl"
    by (simp add: googleUser_def)
  have a: "\<forall>g f. pl_given_name pl = Some g \<and> g \<noteq> [] \<and> pl_family_name pl = Some f \<and> f \<noteq> [] \<longrightarrow>
              firstName ?u = g \<and> lastName ?u = f"
    by (auto simp add: googleUser_def deriveNames_given)
  have b: "\<forall>n. \<not> (truthy (pl_given_name pl) \<and> truthy (pl_family_name pl)) \<and>
              pl_name pl = Some n \<and> n \<noteq> [] \<longrightarrow>
              firstName ?u = takeWhile (\<lambda>c. c \<noteq> CHR '' '') n \<and>
              lastName ?u = drop 1 (dropWhile (\<lambda>c. c \<noteq> CHR '' '') n)"
    using deriveNames_name [of pl _ mail] by (simp add: googleUser_def)
  have c: "\<not> (truthy (pl_given_name pl) \<and> truthy (pl_family_name pl)) \<and>
              \<not> truthy (pl_name pl) \<longrightarrow>
              firstName ?u = takeWhile (\<lambda>c. c \<noteq> CHR ''@'') mail \<and> lastName ?u = []"
    using deriveNames_email [of pl mail] by (simp add: googleUser_def)
  from g f n a b c show ?thesis
    by (intro exI [of _ ?u]) simp
qed

text \<open>
  C9 as stated fails: the display name is split at the space character only, and at every
  single one. With a tab between the words nothing is split off, and with two spaces the
  last name begins with a space; splitting on whitespace gives \<open>Ada\<close> and \<open>Lovelace\<close>
  in both cases.
\<close>

theorem names_whitespace_counterexample:
  "deriveNames ''ada@x.com'' tab_payload = (''Ada'' @ CHR 0x09 # ''Lovelace'', []) \<and>
   spec_deriveNames ''ada@x.com'' tab_payload = (''Ada'', ''Lovelace'') \<and>
   deriveNames ''ada@x.com'' spaces_payload = (''Ada'', '' Lovelace'') \<and>
   spec_deriveNames ''ada@x.com'' spaces_payload = (''Ada'', ''Lovelace'')"
  by (simp add: deriveNames_def spec_deriveNames_def tab_payload_def spaces_payload_def
      truthy_def first_def spec_tokens_def isWhitespace_def charCode_def Let_def)

theorem names_derived_witness:
  "findUnique empty_world ''ada@x.com'' = None \<and>
   (\<exists>u. findUnique (fst (googleSignup example_env empty_world (Ticket (Some spaces_payload))))
           ''ada@x.com'' = Some u \<and>
        firstName u = ''Ada'' \<and> lastName u = '' Lovelace'')"
proof -
  have f: "findUnique empty_world ''ada@x.com'' = None"
    by (simp add: findUnique_def empty_world_def)
  have m: "pl_email spaces_payload = Some ''ada@x.com''"
    by (simp add: spaces_payload_def)
  have n: "''ada@x.com'' \<noteq> []"
    by simp
  have t: "\<not> (truthy (pl_given_name spaces_payload) \<and> truthy (pl_family_name spaces_payload))"
    "pl_name spaces_payload = Some ''Ada  Lovelace''"
    by (simp_all add: spaces_payload_def truthy_def)
  from names_derived [OF f m n, of example_env] t f show ?thesis
    by auto
qed

section \<open>Account deletion\<close>

lemma deleteAccount_failure_unchanged:
  "deleteAccount env w mail pw = (w', r) \<Longrightarrow> status r \<noteq> 200 \<Longrightarrow> w' = w"
  by (auto simp add: deleteAccount_def transaction_def reply_def NotFoundError_def
      InvalidCredentialError_def split: option.splits if_splits sum.splits)

lemma deleteAccount_success:
  assumes "deleteAccount env w mail pw = (w', r)" and "status r = 200"
  shows "\<exists>u. findUnique w mail = Some u \<and> bcryptCompare env pw (password u) = Inr True \<and>
             deleteCascade env u (findProfile w (user_id u)) w = Inr w'"
  using assms
  by (auto simp add: deleteAccount_def transaction_def reply_def failure_def NotFoundError_def
      InvalidCredentialError_def split: option.splits if_splits sum.splits)

lemma filter_distinct_key:
  "distinct (map f xs) \<Longrightarrow> x \<in> set xs \<Longrightarrow> filter (\<lambda>y. f y = f x) xs = [x]"
proof (induction xs)
  case Nil
  then show ?case by simp
next
  case (Cons a xs)
  from Cons.prems(1) have d: "distinct (map f xs)" and n: "f a \<notin> f ` set xs"
    by simp_all
  show ?case
  proof (cases "x = a")
    case True
    have "\<forall>y \<in> set xs. f y \<noteq> f a"
      using n by (metis imageI)
    then have "filter (\<lambda>y. f y = f a) xs = []"
      by (simp add: filter_empty_conv)
    with True show ?thesis by simp
  next
    case False
    with Cons.prems(2) have m: "x \<in> set xs" by simp
    with n have "f a \<noteq> f x" by blast
    with Cons.IH [OF d m] show ?thesis by simp
  qed
qed

lemma profileIdsOf_found:
  assumes "distinct (map profile_userId (profiles w))" and "findProfile w uid = Some p"
  shows "profileIdsOf w uid = [profile_id p]"
proof -
  from assms(2) have m: "p \<in> set (profiles w)" and k: "profile_userId p = uid"
    using find_Some_mem [of "\<lambda>p. profile_userId p = uid" "profiles w" p]
    by (simp_all add: findProfile_def)
  from filter_distinct_key [OF assms(1) m]
  have "filter (\<lambda>q. profile_userId q = uid) (profiles w) = [p]"
    unfolding k .
  then show ?thesis
    by (simp add: profileIdsOf_def)
qed

lemma profileIdsOf_none:
  assumes "findProfile w uid = None"
  shows "profileIdsOf w uid = []"
  using assms by (simp add: findProfile_def profileIdsOf_def find_None_filter)

lemma projectAverage_deleteMany_Inr:
  "projectAverage_deleteMany env pid w = Inr w' \<Longrightarrow>
   w' = w\<lparr>projectAverages := filter (\<lambda>a. average_profileId a \<noteq> pid) (projectAverages w)\<rparr>"
  by (cases "tx_error env DeleteAverages") (auto simp add: projectAverage_deleteMany_def)

lemma project_deleteMany_Inr:
  "project_deleteMany env uid w = Inr w' \<Longrightarrow>
   w' = w\<lparr>projects := filter (\<lambda>p. project_userId p \<noteq> uid) (projects w)\<rparr>"
  by (cases "tx_error env DeleteProjects") (auto simp add: project_deleteMany_def)

lemma profile_delete_Inr:
  "profile_delete env uid w = Inr w' \<Longrightarrow>
   w' = w\<lparr>profiles := filter (\<lambda>p. profile_userId p \<noteq> uid) (profiles w)\<rparr>"
  by (cases "tx_error env DeleteProfile") (auto simp add: profile_delete_def split: if_splits)

lemma user_delete_Inr:
  "user_delete env uid w = Inr w' \<Longrightarrow>
   w' = w\<lparr>users := filter (\<lambda>u. user_id u \<noteq> uid) (users w)\<rparr>"
  by (cases "tx_error env DeleteUser") (auto simp add: user_delete_def split: if_splits)

lemma deleteCascade_Some:
  assumes "deleteCascade env u (Some p) w = Inr w'"
  shows "w' = w\<lparr>projectAverages := filter (\<lambda>a. average_profileId a \<noteq> profile_id p) (projectAverages w),
               projects := filter (\<lambda>p. project_userId p \<noteq> user_id u) (projects w),
               profiles := filter (\<lambda>p. profile_userId p \<noteq> user_id u) (profiles w),
               users := filter (\<lambda>x. user_id x \<noteq> user_id u) (users w)\<rparr>"
proof -
  from assms obtain w1 w2 w3 where
    s1: "projectAverage_deleteMany env (profile_id p) w = Inr w1"
    and s2: "project_deleteMany env (user_id u) w1 = Inr w2"
    and s3: "profile_delete env (user_id u) w2 = Inr w3"
    and s4: "user_delete env (user_id u) w3 = Inr w'"
    unfolding deleteCascade_def option.case by (blast dest: andThen_Inr)
  show ?thesis
    using projectAverage_deleteMany_Inr [OF s1] project_deleteMany_Inr [OF s2]
      profile_delete_Inr [OF s3] user_delete_Inr [OF s4]
    by simp
qed

lemma deleteCascade_None:
  assumes "deleteCascade env u None w = Inr w'"
  shows "w' = w\<lparr>projects := filter (\<lambda>p. project_userId p \<noteq> user_id u) (projects w),
               users := filter (\<lambda>x. user_id x \<noteq> user_id u) (users w)\<rparr>"
proof -
  from assms obtain w1 w2 w3 where
    s1: "Inr w = (Inr w1 :: string + world)"
    and s2: "project_deleteMany env (user_id u) w1 = Inr w2"
    and s3: "Inr w2 = (Inr w3 :: string + world)"
    and s4: "user_delete env (user_id u) w3 = Inr w'"
    unfolding deleteCascade_def option.case by (blast dest: andThen_Inr)
  from s1 have e1: "w1 = w" by simp
  from s3 have e3: "w3 = w2" by simp
  have e2: "w2 = w\<lparr>projects := filter (\<lambda>p. project_userId p \<noteq> user_id u) (projects w)\<rparr>"
    using project_deleteMany_Inr [OF s2] e1 by simp
  have "w' = w2\<lparr>users := filter (\<lambda>x. user_id x \<noteq> user_id u) (users w2)\<rparr>"
    using user_delete_Inr [OF s4] e3 by simp
  then show ?thesis
    by (simp add: e2)
qed

lemma filter_filter_not: "filter P (filter (\<lambda>x. \<not> P x) xs) = []"
  by (induction xs) auto

lemma rowsOf_cascade:
  assumes "distinct (map profile_userId (profiles w))"
    and "deleteCascade env u (findProfile w (user_id u)) w = Inr w'"
  shows "rowsOf w (user_id u) w' = 0"
proof (cases "findProfile w (user_id u)")
  case None
  with assms(2) have w': "w' = w\<lparr>projects := filter (\<lambda>p. project_userId p \<noteq> user_id u) (projects w),
               users := filter (\<lambda>x. user_id x \<noteq> user_id u) (users w)\<rparr>"
    by (simp add: deleteCascade_None)
  from None have "filter (\<lambda>p. profile_userId p = user_id u) (profiles w) = []"
    by (simp add: findProfile_def find_None_filter)
  then show ?thesis
    by (simp add: rowsOf_def w' profileIdsOf_none [OF None] filter_filter_not)
next
  case (Some p)
  with assms(2) have w': "w' = w\<lparr>projectAverages := filter (\<lambda>a. average_profileId a \<noteq> profile_id p) (projectAverages w),
               projects := filter (\<lambda>p. project_userId p \<noteq> user_id u) (projects w),
               profiles := filter (\<lambda>p. profile_userId p \<noteq> user_id u) (profiles w),
               users := filter (\<lambda>x. user_id x \<noteq> user_id u) (users w)\<rparr>"
    by (simp add: deleteCascade_Some)
  show ?thesis
    by (simp add: rowsOf_def w' profileIdsOf_found [OF assms(1) Some] filter_filter_not)
qed

lemma deleteCascade_fails:
  assumes "cascadeFails env prof"
  shows "\<exists>e. deleteCascade env u prof w = Inl e"
proof (cases prof)
  case None
  with assms show ?thesis
    by (auto simp add: cascadeFails_def deleteCascade_def andThen_def project_deleteMany_def
        user_delete_def split: option.splits)
next
  case (Some p)
  show ?thesis
  proof (cases "tx_error env DeleteAverages")
    case (Some e)
    then show ?thesis
      by (simp add: \<open>prof = Some p\<close> deleteCascade_def andThen_def projectAverage_deleteMany_def)
  next
    case a: None
    show ?thesis
    proof (cases "tx_error env DeleteProjects")
      case (Some e)
      then show ?thesis
        by (simp add: \<open>prof = Some p\<close> a deleteCascade_def andThen_def
            projectAverage_deleteMany_def project_deleteMany_def)
    next
      case b: None
      show ?thesis
      proof (cases "tx_error env DeleteProfile")
        case (Some e)
        then show ?thesis
          by (simp add: \<open>prof = Some p\<close> a b deleteCascade_def andThen_def
              projectAverage_deleteMany_def project_deleteMany_def profile_delete_def)
      next
        case c: None
        with assms a b \<open>prof = Some p\<close> obtain e where "tx_error env DeleteUser = Some e"
          by (auto simp add: cascadeFails_def)
        then show ?thesis
          by (simp add: \<open>prof = Some p\<close> a b c deleteCascade_def andThen_def
              projectAverage_deleteMany_def project_deleteMany_def profile_delete_def
              user_delete_def)
      qed
    qed
  qed
qed

lemma find_Some_ex: "find P xs = Some x \<Longrightarrow> list_ex P xs"
  by (induction xs) (auto split: if_splits)

lemma deleteCascade_succeeds:
  assumes "\<not> cascadeFails env (findProfile w (user_id u))" and "u \<in> set (users w)"
  shows "\<exists>w'. deleteCascade env u (findProfile w (user_id u)) w = Inr w'"
proof -
  from assms(1) have t: "tx_error env DeleteProjects = None" "tx_error env DeleteUser = None"
    by (simp_all add: cascadeFails_def)
  from assms(2) have x: "list_ex (\<lambda>x. user_id x = user_id u) (users w)"
    by (auto simp add: list_ex_iff)
  show ?thesis
  proof (cases "findProfile w (user_id u)")
    case None
    with t x show ?thesis
      by (simp add: deleteCascade_def andThen_def project_deleteMany_def user_delete_def)
  next
    case (Some p)
    with assms(1) have s: "tx_error env DeleteAverages = None" "tx_error env DeleteProfile = None"
      by (simp_all add: cascadeFails_def)
    from Some have "list_ex (\<lambda>p. profile_userId p = user_id u) (profiles w)"
      unfolding findProfile_def by (rule find_Some_ex)
    with Some t s x show ?thesis
      by (simp add: deleteCascade_def andThen_def projectAverage_deleteMany_def
          project_deleteMany_def profile_delete_def user_delete_def)
  qed
qed

text \<open>
  C4: \<open>deleteAccount\<close> is all-or-nothing. Whenever it does not answer 200 the world is
  exactly the one before the call. When it answers 200, no row of the account is left: not
  the user row, no profile, no project, and no average of a profile the account had. For a
  found account and a matching password, it answers 500 and changes nothing when a
  statement of the cascade throws, and answers 200 otherwise. A password that makes the
  comparison throw is answered 500 like any other error, with the world unchanged. The
  user table gives each account at most one profile (the unique \<open>userId\<close> that
  \<open>profile.delete\<close> selects by).
\<close>

theorem deleteAccount_all_or_nothing:
  assumes "distinct (map profile_userId (profiles w))"
    and "deleteAccount env w mail pw = (w', r)"
  shows "(status r \<noteq> 200 \<longrightarrow> w' = w) \<and>
         (status r = 200 \<longrightarrow>
            (\<exists>u. findUnique w mail = Some u \<and> rowsOf w (user_id u) w' = 0)) \<and>
         (\<forall>u. findUnique w mail = Some u \<and> bcryptCompare env pw (password u) = Inr True \<longrightarrow>
            (if cascadeFails env (findProfile w (user_id u))
             then status r = 500 \<and> w' = w else status r = 200))"
proof (intro conjI impI allI)
  assume "status r \<noteq> 200"
  with assms(2) show "w' = w"
    by (rule deleteAccount_failure_unchanged)
next
  assume "status r = 200"
  with assms(2) obtain u where u: "findUnique w mail = Some u"
    and c: "deleteCascade env u (findProfile w (user_id u)) w = Inr w'"
    by (blast dest: deleteAccount_success)
  from assms(1) c have "rowsOf w (user_id u) w' = 0"
    by (rule rowsOf_cascade)
  with u show "\<exists>u. findUnique w mail = Some u \<and> rowsOf w (user_id u) w' = 0"
    by blast
next
  fix u
  assume a: "findUnique w mail = Some u \<and> bcryptCompare env pw (password u) = Inr True"
  then have m: "u \<in> set (users w)"
    using find_Some_mem [of "\<lambda>u. email u = mail" "users w" u] by (simp add: findUnique_def)
  show "if cascadeFails env (findProfile w (user_id u))
        then status r = 500 \<and> w' = w else status r = 200"
  proof (cases "cascadeFails env (findProfile w (user_id u))")
    case True
    then obtain e where "deleteCascade env u (findProfile w (user_id u)) w = Inl e"
      using deleteCascade_fails by blast
    with a assms(2) True show ?thesis
      by (auto simp add: deleteAccount_def transaction_def failure_def)
  next
    case False
    then obtain w1 where "deleteCascade env u (findProfile w (user_id u)) w = Inr w1"
      using deleteCascade_succeeds [OF _ m] by blast
    with a assms(2) False show ?thesis
      by (auto simp add: deleteAccount_def transaction_def reply_def)
  qed
qed

lemma full_world_find: "findUnique full_world ''a@x.com'' = Some example_user"
  by (simp add: findUnique_def full_world_def example_user_def)

lemma full_world_profile:
  "findProfile full_world 7 = Some \<lparr>profile_id = 1, profile_userId = 7\<rparr>"
  by (simp add: findProfile_def full_world_def)

lemma example_compare_tx:
  "bcryptCompare (example_env\<lparr>tx_error := t\<rparr>) (JString ''Abc123!'') (password example_user) =
     Inr True"
  by (simp add: bcryptCompare_def example_user_def example_hash_length example_env_def)

lemma example_user_id: "user_id example_user = 7"
  by (simp add: example_user_def)

lemma full_world_delete:
  "deleteAccount example_env full_world ''a@x.com'' (JString ''Abc123!'') =
     (full_world_after, reply 200 ''Account deleted successfully'')"
proof -
  have t: "tx_error example_env = (\<lambda>s. None)"
    by (simp add: example_env_def)
  have "deleteCascade example_env example_user
          (Some \<lparr>profile_id = 1, profile_userId = 7\<rparr>) full_world = Inr full_world_after"
    by (simp add: deleteCascade_def andThen_def projectAverage_deleteMany_def
        project_deleteMany_def profile_delete_def user_delete_def t example_user_id)
      (simp add: full_world_def full_world_after_def example_user_def other_user_def)
  then show ?thesis
    by (simp add: deleteAccount_def full_world_find example_compare transaction_def
        example_user_id full_world_profile)
qed

lemma full_world_delete_fails:
  "deleteAccount (example_env\<lparr>tx_error := (\<lambda>s. if s = DeleteUser then Some ''P2003'' else None)\<rparr>)
       full_world ''a@x.com'' (JString ''Abc123!'') =
     (full_world, failure ''Error deleting account'' ''P2003'')"
proof -
  let ?env = "example_env\<lparr>tx_error := (\<lambda>s. if s = DeleteUser then Some ''P2003'' else None)\<rparr>"
  have "deleteCascade ?env example_user
          (Some \<lparr>profile_id = 1, profile_userId = 7\<rparr>) full_world = Inl ''P2003''"
    by (simp add: deleteCascade_def andThen_def projectAverage_deleteMany_def
        project_deleteMany_def profile_delete_def user_delete_def example_user_id)
      (simp add: full_world_def)
  then show ?thesis
    by (simp add: deleteAccount_def full_world_find example_compare_tx transaction_def
        example_user_id full_world_profile)
qed

text \<open>A request without a password: bcrypt throws, nothing is deleted.\<close>

lemma full_world_delete_no_password:
  "deleteAccount example_env full_world ''a@x.com'' JUndefined =
     (full_world, failure ''Error deleting account'' ''Illegal arguments: undefined, string'')"
  by (simp add: deleteAccount_def full_world_find bcryptCompare_def typeof_def)

theorem deleteAccount_all_or_nothing_witness:
  "distinct (map profile_userId (profiles full_world)) \<and>
   deleteAccount example_env full_world ''a@x.com'' (JString ''Abc123!'') =
     (full_world_after, reply 200 ''Account deleted successfully'') \<and>
   rowsOf full_world 7 full_world = 6 \<and>
   rowsOf full_world 7 full_world_after = 0 \<and>
   deleteAccount (example_env\<lparr>tx_error := (\<lambda>s. if s = DeleteUser then Some ''P2003'' else None)\<rparr>)
       full_world ''a@x.com'' (JString ''Abc123!'') =
     (full_world, failure ''Error deleting account'' ''P2003'')"
proof -
  have d: "distinct (map profile_userId (profiles full_world))"
    by (simp add: full_world_def)
  have i: "user_id example_user = 7"
    by (simp add: example_user_def)
  have b: "rowsOf full_world 7 full_world = 6"
    by (simp add: rowsOf_def profileIdsOf_def full_world_def example_user_def other_user_def)
  have s: "status (reply 200 ''Account deleted successfully'') = 200"
    by (simp add: reply_def)
  from deleteAccount_all_or_nothing [OF d full_world_delete] s full_world_find i
  have "rowsOf full_world 7 full_world_after = 0"
    by auto
  with d b full_world_delete full_world_delete_fails show ?thesis
    by blast
qed

section \<open>Rounding\<close>










































section \<open>Issuing one-time codes\<close>






















end
